theory Spec2Isabelle
  imports Main "HOL-Library.Monad_Syntax"
begin

section \<open>Go strings and the regular expressions of the source\<close>

text \<open>
  A Go string is a sequence of bytes, here a \<^typ>\<open>string\<close>. Every function of this
  section is a function of the Go standard library (\<open>strings\<close>, \<open>strconv\<close>,
  \<open>regexp\<close>) as the source calls it; a runtime panic is the value \<open>None\<close>. The
  regular expressions of the source are constants that \<open>regexp.MustCompile\<close> accepts;
  each one is modelled by a matcher that says whether, and how far, the pattern matches
  at the start of a text, with the leftmost-first, greedy semantics of Go. The patterns
  name ASCII characters only, so matching bytes and matching runes give the same
  matches.
\<close>

definition HasPrefix :: "string \<Rightarrow> string \<Rightarrow> bool" where
  "HasPrefix s p \<longleftrightarrow> take (length p) s = p"

definition HasSuffix :: "string \<Rightarrow> string \<Rightarrow> bool" where
  "HasSuffix s p \<longleftrightarrow> length p \<le> length s \<and> drop (length s - length p) s = p"

text \<open>
  \<open>strings.Index\<close> and \<open>strings.LastIndex\<close>; the needle is a one-byte string in every
  call of the source. The result is \<open>-1\<close> when the byte does not occur.
\<close>

definition Index :: "string \<Rightarrow> char \<Rightarrow> int" where
  "Index s c = (if c \<in> set s then int (length (takeWhile (\<lambda>x. x \<noteq> c) s)) else - 1)"

definition LastIndex :: "string \<Rightarrow> char \<Rightarrow> int" where
  "LastIndex s c =
     (if c \<in> set s then int (length s) - 1 - int (length (takeWhile (\<lambda>x. x \<noteq> c) (rev s)))
      else - 1)"

text \<open>The slice expression \<open>s[lo:hi]\<close>, which panics unless \<open>0 \<le> lo \<le> hi \<le> len(s)\<close>.\<close>

definition slice :: "string \<Rightarrow> int \<Rightarrow> int \<Rightarrow> string option" where
  "slice s lo hi =
     (if 0 \<le> lo \<and> lo \<le> hi \<and> hi \<le> int (length s)
      then Some (take (nat (hi - lo)) (drop (nat lo) s)) else None)"

text \<open>
  Replacement of all non-overlapping matches, leftmost first. The matcher is asked at
  every offset whether the pattern matches there; it answers with the replacement text
  and the length of the match, which is at least one for every pattern of the source.
\<close>

fun replaceMatches :: "(string \<Rightarrow> (string \<times> nat) option) \<Rightarrow> string \<Rightarrow> string" where
  "replaceMatches m [] = []"
| "replaceMatches m (c # cs) =
     (case m (c # cs) of
        None \<Rightarrow> c # replaceMatches m cs
      | Some (rep, n) \<Rightarrow> rep @ replaceMatches m (drop (n - 1) cs))"

text \<open>\<open>strings.ReplaceAll\<close>, for a non-empty \<open>old\<close> (as in every call of the source).\<close>

definition ReplaceAll :: "string \<Rightarrow> string \<Rightarrow> string \<Rightarrow> string" where
  "ReplaceAll s old new =
     replaceMatches (\<lambda>t. if HasPrefix t old then Some (new, length old) else None) s"

text \<open>\<open>strings.Split\<close>, for a non-empty separator: the result is never empty.\<close>

fun Split :: "string \<Rightarrow> string \<Rightarrow> string list" where
  "Split [] sep = [[]]"
| "Split (c # cs) sep =
     (if HasPrefix (c # cs) sep then [] # Split (drop (length sep - 1) cs) sep
      else (case Split cs sep of [] \<Rightarrow> [[c]] | p # ps \<Rightarrow> (c # p) # ps))"

definition Join :: "string list \<Rightarrow> string \<Rightarrow> string" where
  "Join elems sep = (case elems of [] \<Rightarrow> [] | e # es \<Rightarrow> e @ concat (map (\<lambda>x. sep @ x) es))"

text \<open>
  \<open>strings.TrimSpace\<close> removes leading and trailing runes that \<open>unicode.IsSpace\<close>
  accepts: the six ASCII ones and the UTF-8 encodings of U+0085, U+00A0, U+1680,
  U+2000 to U+200A, U+2028, U+2029, U+202F, U+205F and U+3000.
\<close>

definition spaceRunes :: "string list" where
  "spaceRunes =
     [[CHR 0x09], [CHR 0x0A], [CHR 0x0B], [CHR 0x0C], [CHR 0x0D], [CHR 0x20],
      [CHR 0xC2, CHR 0x85], [CHR 0xC2, CHR 0xA0], [CHR 0xE1, CHR 0x9A, CHR 0x80],
      [CHR 0xE2, CHR 0x80, CHR 0x80], [CHR 0xE2, CHR 0x80, CHR 0x81],
      [CHR 0xE2, CHR 0x80, CHR 0x82], [CHR 0xE2, CHR 0x80, CHR 0x83],
      [CHR 0xE2, CHR 0x80, CHR 0x84], [CHR 0xE2, CHR 0x80, CHR 0x85],
      [CHR 0xE2, CHR 0x80, CHR 0x86], [CHR 0xE2, CHR 0x80, CHR 0x87],
      [CHR 0xE2, CHR 0x80, CHR 0x88], [CHR 0xE2, CHR 0x80, CHR 0x89],
      [CHR 0xE2, CHR 0x80, CHR 0x8A], [CHR 0xE2, CHR 0x80, CHR 0xA8],
      [CHR 0xE2, CHR 0x80, CHR 0xA9], [CHR 0xE2, CHR 0x80, CHR 0xAF],
      [CHR 0xE2, CHR 0x81, CHR 0x9F], [CHR 0xE3, CHR 0x80, CHR 0x80]]"

fun stripAny :: "string list \<Rightarrow> string \<Rightarrow> string" where
  "stripAny ps [] = []"
| "stripAny ps (c # cs) =
     (case find (\<lambda>p. p \<noteq> [] \<and> HasPrefix (c # cs) p) ps of
        None \<Rightarrow> c # cs
      | Some p \<Rightarrow> stripAny ps (drop (length p - 1) cs))"

definition TrimSpace :: "string \<Rightarrow> string" where
  "TrimSpace s = rev (stripAny (map rev spaceRunes) (rev (stripAny spaceRunes s)))"

text \<open>The classes \<open>\<bsol>s\<close> and \<open>\<bsol>d\<close> of Go's regular expressions are ASCII only.\<close>

definition isSpace :: "char \<Rightarrow> bool" where
  "isSpace c \<longleftrightarrow> c = CHR 0x09 \<or> c = CHR 0x0A \<or> c = CHR 0x0C \<or> c = CHR 0x0D \<or> c = CHR 0x20"

definition isDigit :: "char \<Rightarrow> bool" where
  "isDigit c \<longleftrightarrow> c \<in> set ''0123456789''"

text \<open>
  \<open>strconv.Atoi\<close> for the 64-bit \<open>int\<close>: an optional sign, then decimal digits only;
  a value outside the range of \<open>int\<close> is an error.
\<close>

definition digitsValue :: "string \<Rightarrow> int" where
  "digitsValue ds = foldl (\<lambda>a c. 10 * a + (int (of_char c) - 48)) 0 ds"

definition Atoi :: "string \<Rightarrow> int option" where
  "Atoi s =
     (let neg = HasPrefix s ''-'';
          ds = (if HasPrefix s ''-'' \<or> HasPrefix s ''+'' then tl s else s) in
      if ds = [] \<or> \<not> list_all isDigit ds then None
      else (let v = (if neg then - digitsValue ds else digitsValue ds) in
            if v < - (2 ^ 63) \<or> 2 ^ 63 - 1 < v then None else Some v))"

text \<open>
  \<open>FindAllString(s, -1)\<close>: all non-overlapping matches, leftmost first. The matcher
  answers with the length of the match at the start of its argument.
\<close>

fun FindAllString :: "(string \<Rightarrow> nat option) \<Rightarrow> string \<Rightarrow> string list" where
  "FindAllString m [] = []"
| "FindAllString m (c # cs) =
     (case m (c # cs) of
        None \<Rightarrow> FindAllString m cs
      | Some n \<Rightarrow> take n (c # cs) # FindAllString m (drop (n - 1) cs))"

text \<open>
  \<open>FindStringSubmatch\<close>, reduced to what the source reads of it: the text of the first
  capture group of the leftmost match, \<open>None\<close> when there is no match.
\<close>

fun FindStringSubmatch :: "(string \<Rightarrow> string option) \<Rightarrow> string \<Rightarrow> string option" where
  "FindStringSubmatch m [] = m []"
| "FindStringSubmatch m (c # cs) =
     (case m (c # cs) of Some g \<Rightarrow> Some g | None \<Rightarrow> FindStringSubmatch m cs)"

text \<open>The pattern \<^verbatim>\<open>\{[^{}]*\}\<close>, matched at the start of the argument.\<close>

definition objectPattern :: "string \<Rightarrow> nat option" where
  "objectPattern s =
     (case s of
        [] \<Rightarrow> None
      | c # rest \<Rightarrow>
          if c = CHR ''{'' then
            (let body = takeWhile (\<lambda>x. x \<noteq> CHR ''{'' \<and> x \<noteq> CHR ''}'') rest in
             if HasPrefix (drop (length body) rest) ''}'' then Some (length body + 2) else None)
          else None)"

text \<open>
  The label of a field followed by \<^verbatim>\<open>\s*\<close>: what is left of the argument after both,
  when the argument starts with the label.
\<close>

definition afterLabel :: "string \<Rightarrow> string \<Rightarrow> string option" where
  "afterLabel label s =
     (if HasPrefix s label then Some (dropWhile isSpace (drop (length label) s)) else None)"

text \<open>The patterns \<^verbatim>\<open>"label":\s*"([^"]+)"\<close>, matched at the start of the argument.\<close>

definition quotedField :: "string \<Rightarrow> string \<Rightarrow> string option" where
  "quotedField label s =
     (case afterLabel label s of
        None \<Rightarrow> None
      | Some t \<Rightarrow>
          (case t of
             [] \<Rightarrow> None
           | c # rest \<Rightarrow>
               if c = CHR 0x22 then
                 (let v = takeWhile (\<lambda>x. x \<noteq> CHR 0x22) rest in
                  if v \<noteq> [] \<and> HasPrefix (drop (length v) rest) [CHR 0x22] then Some v else None)
               else None))"

text \<open>The pattern \<^verbatim>\<open>"year":\s*(\d+)\<close>.\<close>

definition digitsField :: "string \<Rightarrow> string \<Rightarrow> string option" where
  "digitsField label s =
     (case afterLabel label s of
        None \<Rightarrow> None
      | Some t \<Rightarrow> (let d = takeWhile isDigit t in if d \<noteq> [] then Some d else None))"

text \<open>The pattern \<^verbatim>\<open>"rating":\s*(\d+(?:\.\d+)?)\<close>: the fraction is taken when it is there.\<close>

definition numberField :: "string \<Rightarrow> string \<Rightarrow> string option" where
  "numberField label s =
     (case afterLabel label s of
        None \<Rightarrow> None
      | Some t \<Rightarrow>
          (let d = takeWhile isDigit t; u = drop (length d) t in
           if d = [] then None
           else (case u of
                   [] \<Rightarrow> Some d
                 | c # v \<Rightarrow>
                     if c = CHR ''.'' \<and> takeWhile isDigit v \<noteq> []
                     then Some (d @ [c] @ takeWhile isDigit v) else Some d)))"

definition titlePattern :: "string \<Rightarrow> string option" where
  \<open>titlePattern = FindStringSubmatch (quotedField ''"title":'')\<close>

definition yearPattern :: "string \<Rightarrow> string option" where
  \<open>yearPattern = FindStringSubmatch (digitsField ''"year":'')\<close>

definition categoryPattern :: "string \<Rightarrow> string option" where
  \<open>categoryPattern = FindStringSubmatch (quotedField ''"category":'')\<close>

definition extraInfoPattern :: "string \<Rightarrow> string option" where
  \<open>extraInfoPattern = FindStringSubmatch (quotedField ''"extra_info":'')\<close>

definition typePattern :: "string \<Rightarrow> string option" where
  \<open>typePattern = FindStringSubmatch (quotedField ''"type":'')\<close>

definition ratingPattern :: "string \<Rightarrow> string option" where
  \<open>ratingPattern = FindStringSubmatch (numberField ''"rating":'')\<close>

section \<open>Content records and Tier A: the direct fragment scan\<close>

text \<open>
  \<open>storage.Content\<close>. The optional pointer fields are options. The type \<open>'f\<close> stands for
  Go's \<open>float64\<close>, whose values come from \<open>strconv.ParseFloat\<close> or from the JSON
  decoder only: both are parameters of the model.
\<close>

record 'f Content =
  Title :: string
  Year :: "int option"
  Category :: string
  ExtraInfo :: string
  Type :: string
  Rating :: "'f option"
  SourceURL :: "string option"

text \<open>
  The body of the loop of \<open>extractContentManually\<close> for one object block; \<open>None\<close> is
  the \<open>continue\<close> that skips the block. The checks come in the order of the source.
\<close>

definition extractObject :: "(string \<Rightarrow> 'f option) \<Rightarrow> string \<Rightarrow> 'f Content option" where
  "extractObject ParseFloat obj =
     (case titlePattern obj of
        None \<Rightarrow> None
      | Some title \<Rightarrow>
          (let year = (case yearPattern obj of None \<Rightarrow> None | Some y \<Rightarrow> Atoi y) in
           case categoryPattern obj of
             None \<Rightarrow> None
           | Some category \<Rightarrow>
               if category = ''Korean'' then None
               else
                 (let extraInfo = (case extraInfoPattern obj of Some e \<Rightarrow> e | None \<Rightarrow> '''') in
                  case typePattern obj of
                    None \<Rightarrow> None
                  | Some ty \<Rightarrow>
                      if ty \<noteq> ''movie'' \<and> ty \<noteq> ''series'' then None
                      else
                        (let rating = (case ratingPattern obj of
                                         None \<Rightarrow> None | Some r \<Rightarrow> ParseFloat r) in
                         Some \<lparr>Title = title, Year = year, Category = category,
                               ExtraInfo = extraInfo, Type = ty, Rating = rating,
                               SourceURL = None\<rparr>))))"

definition extractContentManually :: "(string \<Rightarrow> 'f option) \<Rightarrow> string \<Rightarrow> 'f Content list" where
  "extractContentManually ParseFloat response =
     List.map_filter (extractObject ParseFloat) (FindAllString objectPattern response)"

section \<open>Tier B and Tier C: bracket recovery and fragment reconstruction\<close>

text \<open>
  \<open>encoding/json\<close> is a parameter of the model: \<open>UnmarshalContents\<close> decodes into a
  \<open>[]storage.Content\<close>, \<open>UnmarshalArray\<close> says whether decoding into a
  \<open>[]interface{}\<close> succeeds, \<open>UnmarshalObject\<close> decodes into a
  \<open>map[string]interface{}\<close> (a value of type \<open>'o\<close>) and \<open>Marshal\<close> encodes such a map.
  A decoding error is \<open>None\<close>.
\<close>

record ('f, 'o) json =
  UnmarshalContents :: "string \<Rightarrow> 'f Content list option"
  UnmarshalArray :: "string \<Rightarrow> bool"
  UnmarshalObject :: "string \<Rightarrow> 'o option"
  Marshal :: "'o \<Rightarrow> string"

text \<open>
  The tiers a response went through, in the order they were entered. The source marks
  each entry with a log line; the one for Tier C is written right before the call of
  \<open>reformatJSON\<close>.
\<close>

datatype tier = TierA | TierB | TierC

definition truncateString :: "string \<Rightarrow> int \<Rightarrow> string option" where
  "truncateString s maxLen =
     (if int (length s) \<le> maxLen then Some s
      else do { t \<leftarrow> slice s 0 maxLen; Some (t @ ''...'') })"

text \<open>The pattern \<^verbatim>\<open>"([^"]+)" :\<close> with its replacement \<^verbatim>\<open>"$1":\<close>.\<close>

definition spaceBeforeColon :: "string \<Rightarrow> (string \<times> nat) option" where
  "spaceBeforeColon s =
     (case s of
        [] \<Rightarrow> None
      | c # rest \<Rightarrow>
          if c = CHR 0x22 then
            (let name = takeWhile (\<lambda>x. x \<noteq> CHR 0x22) rest in
             if name \<noteq> [] \<and> HasPrefix (drop (length name) rest) [CHR 0x22, CHR 0x20, CHR '':'']
             then Some ([CHR 0x22] @ name @ [CHR 0x22, CHR '':''], length name + 4)
             else None)
          else None)"

text \<open>
  The patterns \<^verbatim>\<open>: *([^"{}\[\],\d][^{}\[\],\s]*),\<close> and \<^verbatim>\<open>: *([^"{}\[\],\d][^{}\[\],\s]*)$\<close>.
  The first class of the group accepts a blank, so the greedy \<^verbatim>\<open> *\<close> may have to give
  blanks back: \<open>bareValueTry\<close> tries the longest run of blanks first. After the first
  character the group takes every character its second class accepts, since what has
  to follow the group (a comma, the end of the text) is outside that class.
\<close>

definition bareFirst :: "char \<Rightarrow> bool" where
  "bareFirst c \<longleftrightarrow> c \<notin> set [CHR 0x22, CHR ''{'', CHR ''}'', CHR ''['', CHR '']'', CHR '',''] \<and> \<not> isDigit c"

definition bareRest :: "char \<Rightarrow> bool" where
  "bareRest c \<longleftrightarrow> c \<notin> set [CHR ''{'', CHR ''}'', CHR ''['', CHR '']'', CHR '',''] \<and> \<not> isSpace c"

definition bareValueAt :: "nat \<Rightarrow> string \<Rightarrow> (string \<times> string) option" where
  "bareValueAt k rest =
     (case drop k rest of
        [] \<Rightarrow> None
      | c # u \<Rightarrow> if bareFirst c then Some (c # takeWhile bareRest u, dropWhile bareRest u) else None)"

fun bareValueTry :: "(string \<Rightarrow> bool) \<Rightarrow> nat \<Rightarrow> string \<Rightarrow> (string \<times> nat) option" where
  "bareValueTry follows 0 rest =
     (case bareValueAt 0 rest of
        None \<Rightarrow> None
      | Some (g, after) \<Rightarrow> if follows after then Some (g, 0) else None)"
| "bareValueTry follows (Suc k) rest =
     (case bareValueAt (Suc k) rest of
        None \<Rightarrow> bareValueTry follows k rest
      | Some (g, after) \<Rightarrow> if follows after then Some (g, Suc k) else bareValueTry follows k rest)"

definition bareValue :: "(string \<Rightarrow> bool) \<Rightarrow> string \<Rightarrow> string \<Rightarrow> (string \<times> nat) option" where
  "bareValue follows closing s =
     (case s of
        [] \<Rightarrow> None
      | c # rest \<Rightarrow>
          if c = CHR '':'' then
            (case bareValueTry follows (length (takeWhile (\<lambda>x. x = CHR 0x20) rest)) rest of
               None \<Rightarrow> None
             | Some (g, k) \<Rightarrow>
                 Some ([CHR '':'', CHR 0x22] @ g @ [CHR 0x22] @ closing,
                       1 + k + length g + length closing))
          else None)"

definition bareValueComma :: "string \<Rightarrow> (string \<times> nat) option" where
  "bareValueComma = bareValue (\<lambda>after. HasPrefix after '','') '',''"

definition bareValueEnd :: "string \<Rightarrow> (string \<times> nat) option" where
  "bareValueEnd = bareValue (\<lambda>after. after = []) ''''"

text \<open>The class \<^verbatim>\<open>[\x00-\x1F\x7F]\<close>.\<close>

definition isControl :: "char \<Rightarrow> bool" where
  "isControl c \<longleftrightarrow> (of_char c :: nat) \<le> 31 \<or> c = CHR 0x7F"

text \<open>The patterns \<^verbatim>\<open>,\s*\}\<close> and \<^verbatim>\<open>,\s*\]\<close>, replaced by the closing character.\<close>

definition trailingComma :: "char \<Rightarrow> string \<Rightarrow> (string \<times> nat) option" where
  "trailingComma closing s =
     (case s of
        [] \<Rightarrow> None
      | c # rest \<Rightarrow>
          if c = CHR '','' then
            (let ws = takeWhile isSpace rest in
             if HasPrefix (drop (length ws) rest) [closing] then Some ([closing], length ws + 2)
             else None)
          else None)"

text \<open>
  The repairs of \<open>preprocessModelResponse\<close>, one definition for each statement of the
  source, in the order of the source.
\<close>

definition removeBackticks :: "string \<Rightarrow> string" where
  "removeBackticks jsonPart = ReplaceAll jsonPart [CHR 0x60] ''''"

definition fixColonSpacing :: "string \<Rightarrow> string" where
  "fixColonSpacing jsonPart = replaceMatches spaceBeforeColon jsonPart"

definition quoteBareValues :: "string \<Rightarrow> string" where
  "quoteBareValues jsonPart = replaceMatches bareValueEnd (replaceMatches bareValueComma jsonPart)"

definition unescapeQuotes :: "string \<Rightarrow> string" where
  "unescapeQuotes jsonPart = ReplaceAll jsonPart [CHR 0x5C, CHR 0x22] [CHR 0x22]"

definition stripControl :: "string \<Rightarrow> string" where
  "stripControl jsonPart = filter (\<lambda>c. \<not> isControl c) jsonPart"

definition removeTrailingCommas :: "string \<Rightarrow> string" where
  "removeTrailingCommas jsonPart =
     replaceMatches (trailingComma CHR '']'') (replaceMatches (trailingComma CHR ''}'') jsonPart)"

text \<open>The second pass, after a failed parse; the ellipsis U+2026 is three bytes in UTF-8.\<close>

definition fixQuotes :: "string \<Rightarrow> string" where
  "fixQuotes jsonPart =
     ReplaceAll
       (ReplaceAll (ReplaceAll jsonPart [CHR 0x22, CHR 0x22] [CHR 0x22]) [CHR 0x27, CHR 0x27] [CHR 0x27])
       [CHR 0xE2, CHR 0x80, CHR 0xA6] ''...''"

text \<open>
  \<open>reformatJSON\<close>. \<open>fragments\<close> is the list of object texts the function tries to parse:
  the content between the outer brackets, split at \<^verbatim>\<open>},\<close>, every part closed again,
  trimmed and put between braces.
\<close>

definition fragments :: "string \<Rightarrow> string list" where
  "fragments inner =
     (let content = TrimSpace inner;
          parts = Split content ''},'';
          parts' =
            (if length parts > 1 then
               map (\<lambda>p. p @ ''}'') (butlast parts)
               @ [if HasSuffix (last parts) ''}'' then last parts else last parts @ ''}'']
             else parts)
      in map (\<lambda>part.
                let trimmed = TrimSpace part;
                    trimmed' = (if \<not> HasPrefix trimmed ''{'' then ''{'' @ trimmed else trimmed)
                in if \<not> HasSuffix trimmed' ''}'' then trimmed' @ ''}'' else trimmed')
             parts')"

definition reformatJSON :: "('f, 'o) json \<Rightarrow> string \<Rightarrow> string option" where
  "reformatJSON J input =
     (if \<not> HasPrefix input ''['' \<or> \<not> HasSuffix input '']'' then Some ''[]''
      else do {
        inner \<leftarrow> slice input 1 (int (length input) - 1);
        let validObjects =
              List.map_filter (\<lambda>trimmed. map_option (Marshal J) (UnmarshalObject J trimmed))
                (fragments inner);
        Some (if validObjects \<noteq> [] then ''['' @ Join validObjects '','' @ '']'' else ''[]'')
      })"

text \<open>
  \<open>preprocessModelResponse\<close>, in three parts: \<open>stripFences\<close> removes the markers of a
  markdown code block, and \<open>repairAndCheck\<close> is the source from the removal of backticks
  to the end, applied to the isolated array text.
\<close>

definition stripFences :: "string \<Rightarrow> string" where
  "stripFences response =
     ReplaceAll
       (ReplaceAll response
          [CHR 0x60, CHR 0x60, CHR 0x60, CHR ''j'', CHR ''s'', CHR ''o'', CHR ''n''] '''')
       [CHR 0x60, CHR 0x60, CHR 0x60] ''''"

definition repairAndCheck :: "('f, 'o) json \<Rightarrow> string \<Rightarrow> (tier list \<times> string) option" where
  "repairAndCheck J extracted =
     (let jsonPart = removeBackticks extracted;
          jsonPart = fixColonSpacing jsonPart;
          jsonPart = quoteBareValues jsonPart;
          jsonPart = unescapeQuotes jsonPart;
          jsonPart = stripControl jsonPart;
          jsonPart = removeTrailingCommas jsonPart
      in if UnmarshalArray J jsonPart then Some ([TierB], jsonPart)
         else (let jsonPart = fixQuotes jsonPart in
               if UnmarshalArray J jsonPart then Some ([TierB], jsonPart)
               else do { r \<leftarrow> reformatJSON J jsonPart; Some ([TierB, TierC], r) }))"

definition preprocessModelResponse :: "('f, 'o) json \<Rightarrow> string \<Rightarrow> (tier list \<times> string) option" where
  "preprocessModelResponse J response0 = do {
     _ \<leftarrow> truncateString response0 200;
     let response = stripFences response0;
     let startIdx = Index response CHR ''['';
     if startIdx = - 1 then
       (let objectStart = Index response CHR ''{'';
            objectEnd = LastIndex response CHR ''}'' in
        if objectStart \<noteq> - 1 \<and> objectEnd \<noteq> - 1 \<and> objectEnd > objectStart then do {
          jsonObj \<leftarrow> slice response objectStart (objectEnd + 1);
          Some ([TierB], ''['' @ jsonObj @ '']'')
        }
        else Some ([TierB], ''[]''))
     else
       (let endIdx = LastIndex response CHR '']'' in
        if endIdx = - 1 \<or> endIdx \<le> startIdx then Some ([TierB], ''[]'')
        else do {
          jsonPart \<leftarrow> slice response startIdx (endIdx + 1);
          _ \<leftarrow> truncateString jsonPart 200;
          repairAndCheck J jsonPart
        })
   }"

text \<open>
  The decoding of the processed text into the records, as \<open>Run\<close> does it after each call
  of \<open>preprocessModelResponse\<close>: on an error the records are \<open>nil\<close>.
\<close>

definition parseProcessed :: "('f, 'o) json \<Rightarrow> string \<Rightarrow> 'f Content list" where
  "parseProcessed J processedResponse =
     (case UnmarshalContents J processedResponse of
        Some contents \<Rightarrow> contents
      | None \<Rightarrow> [])"

text \<open>
  What \<open>Run\<close> does with a response of the Gemini provider (Tier A, and the other tiers
  when Tier A found nothing) and with a response of the OpenAI provider (no Tier A).
  The Gemini branch truncates both texts for the log when the decoding fails.
\<close>

definition geminiContents ::
  "('f, 'o) json \<Rightarrow> (string \<Rightarrow> 'f option) \<Rightarrow> string \<Rightarrow> (tier list \<times> 'f Content list) option" where
  "geminiContents J ParseFloat response =
     (let contents = extractContentManually ParseFloat response in
      if length contents = 0 then do {
        (tiers, processedResponse) \<leftarrow> preprocessModelResponse J response;
        _ \<leftarrow> (if UnmarshalContents J processedResponse = None then do {
                 _ \<leftarrow> truncateString response 100;
                 truncateString processedResponse 100
               } else Some []);
        Some (TierA # tiers, parseProcessed J processedResponse)
      }
      else Some ([TierA], contents))"

definition openaiContents ::
  "('f, 'o) json \<Rightarrow> string \<Rightarrow> (tier list \<times> 'f Content list) option" where
  "openaiContents J response = do {
     (tiers, processedResponse) \<leftarrow> preprocessModelResponse J response;
     Some (tiers, parseProcessed J processedResponse)
   }"

section \<open>Storage: the upsert by natural key (storage/base.go)\<close>

text \<open>
  A row of the table \<open>content\<close>, with the columns \<open>SaveContent\<close> reads or writes. The
  table is the list of its rows in insertion order; the schema declares no uniqueness
  constraint on \<open>(title, type)\<close>. A timestamp is the value of \<open>CURRENT_TIMESTAMP\<close>.
\<close>

type_synonym timestamp = nat

record 'f row =
  title :: string
  year :: "int option"
  category :: string
  extra_info :: string
  type :: string
  rating :: "'f option"
  source_url :: "string option"
  scraped_at :: timestamp
  created_at :: timestamp
  updated_at :: timestamp

text \<open>
  The database may fail at the query or at the statement that follows it; a failed
  statement leaves the table as it was.
\<close>

datatype db_fault = QueryFault | ExecFault

datatype store_error = FailedToCheck | FailedToUpdate | FailedToInsert

definition hasKey :: "'f Content \<Rightarrow> 'f row \<Rightarrow> bool" where
  "hasKey content r \<longleftrightarrow> title r = Title content \<and> type r = Type content"

definition updateRow :: "timestamp \<Rightarrow> 'f Content \<Rightarrow> 'f row \<Rightarrow> 'f row" where
  "updateRow now content r =
     r\<lparr>year := Year content, category := Category content, extra_info := ExtraInfo content,
       rating := Rating content, source_url := SourceURL content, updated_at := now\<rparr>"

definition insertRow :: "timestamp \<Rightarrow> 'f Content \<Rightarrow> 'f row" where
  "insertRow now content =
     \<lparr>title = Title content, year = Year content, category = Category content,
      extra_info = ExtraInfo content, type = Type content, rating = Rating content,
      source_url = SourceURL content, scraped_at = now, created_at = now, updated_at = now\<rparr>"

definition SaveContent ::
  "db_fault option \<Rightarrow> timestamp \<Rightarrow> 'f row list \<Rightarrow> 'f Content \<Rightarrow> store_error + 'f row list" where
  "SaveContent fault now rows content =
     (if fault = Some QueryFault then Inl FailedToCheck
      else if list_ex (hasKey content) rows then
        (if fault = Some ExecFault then Inl FailedToUpdate
         else Inr (map (\<lambda>r. if hasKey content r then updateRow now content r else r) rows))
      else
        (if fault = Some ExecFault then Inl FailedToInsert
         else Inr (rows @ [insertRow now content])))"

section \<open>Providers: the model manager (model/gemini.go)\<close>

datatype ModelType = ModelTypeOpenAI | ModelTypeGemini

definition modelTypeName :: "ModelType \<Rightarrow> string" where
  "modelTypeName t = (case t of ModelTypeOpenAI \<Rightarrow> ''openai'' | ModelTypeGemini \<Rightarrow> ''gemini'')"

record ModelConfig =
  APIKey :: string
  BaseURL :: string
  ModelName :: string
  Timeout :: int
  MaxRetries :: int

datatype ModelFactory = OpenAIFactory | GeminiFactory

text \<open>The two implementations of \<open>ModelInterface\<close>, with the fields their constructors set.\<close>

datatype ModelInterface =
  GeminiModel string string int
| OpenAIModel string string string int

datatype model_error =
  APIKeyRequired
| UnsupportedModelType
| FailedToCreateModel model_error
| CallFailed
| AllModelsFailed model_error
| NoValidModelConfigurations

definition NewGeminiModel :: "ModelConfig \<Rightarrow> model_error + ModelInterface" where
  "NewGeminiModel config =
     (if APIKey config = '''' then Inl APIKeyRequired
      else Inr (GeminiModel (APIKey config)
                  (if ModelName config = '''' then ''gemini-1.5-flash'' else ModelName config)
                  (if Timeout config = 0 then 30 else Timeout config)))"

definition NewOpenAIModel :: "ModelConfig \<Rightarrow> model_error + ModelInterface" where
  "NewOpenAIModel config =
     (if APIKey config = '''' then Inl APIKeyRequired
      else Inr (OpenAIModel (APIKey config)
                  (if BaseURL config = '''' then ''https://api.openai.com/v1'' else BaseURL config)
                  (if ModelName config = '''' then ''gpt-3.5-turbo'' else ModelName config)
                  (if Timeout config = 0 then 30 else Timeout config)))"

definition factoryCreateModel :: "ModelFactory \<Rightarrow> ModelConfig \<Rightarrow> model_error + ModelInterface" where
  "factoryCreateModel f config =
     (case f of OpenAIFactory \<Rightarrow> NewOpenAIModel config | GeminiFactory \<Rightarrow> NewGeminiModel config)"


record ModelManager =
  factories :: "ModelType \<rightharpoonup> ModelFactory"
  models :: "string \<rightharpoonup> ModelInterface"

definition NewModelManager :: ModelManager where
  "NewModelManager =
     \<lparr>factories = [ModelTypeOpenAI \<mapsto> OpenAIFactory, ModelTypeGemini \<mapsto> GeminiFactory],
      models = Map.empty\<rparr>"

definition modelKey :: "ModelType \<Rightarrow> string \<Rightarrow> string" where
  "modelKey modelType modelName = modelTypeName modelType @ '':'' @ modelName"

definition CreateModel ::
  "ModelManager \<Rightarrow> ModelType \<Rightarrow> ModelConfig \<Rightarrow> (model_error + ModelInterface) \<times> ModelManager" where
  "CreateModel m modelType config =
     (case factories m modelType of
        None \<Rightarrow> (Inl UnsupportedModelType, m)
      | Some factory \<Rightarrow>
          (case factoryCreateModel factory config of
             Inl err \<Rightarrow> (Inl (FailedToCreateModel err), m)
           | Inr model \<Rightarrow>
               (Inr model, m\<lparr>models := (models m)(modelKey modelType (ModelName config) \<mapsto> model)\<rparr>)))"







section \<open>The job: one run over the sources\<close>

text \<open>\<open>buildContentExtractionPrompt\<close>: the prompt, byte for byte.\<close>

definition buildContentExtractionPrompt :: string where
  \<open>buildContentExtractionPrompt =
     ''You are a specialized JSON extraction tool. Extract movies and series from the provided text into a clean JSON array.'' @ [CHR 0x0A]
     @ [CHR 0x0A]
     @ ''Each entry must follow this exact schema:'' @ [CHR 0x0A]
     @ ''{'' @ [CHR 0x0A]
     @ ''  "title": string,'' @ [CHR 0x0A]
     @ ''  "year": number (for movies only, if available),'' @ [CHR 0x0A]
     @ ''  "category": string ("Hollywood", "Foreign", "Anime", "TV Series"),'' @ [CHR 0x0A]
     @ ''  "extra_info": string (e.g., "Download Hollywood Movie", "Episode 15'' @ [CHR 0xE2, CHR 0x80, CHR 0x93] @ ''18 Added", "Complete"),'' @ [CHR 0x0A]
     @ ''  "type": string ("movie" or "series"),'' @ [CHR 0x0A]
     @ ''  "rating": number (optional, if available, on a scale of 1-10)'' @ [CHR 0x0A]
     @ ''}'' @ [CHR 0x0A]
     @ [CHR 0x0A]
     @ ''Critical rules:'' @ [CHR 0x0A]
     @ ''1. Output ONLY the raw JSON array with no explanations, no markdown code blocks, and no backticks'' @ [CHR 0x0A]
     @ ''2. Do not include Korean content'' @ [CHR 0x0A]
     @ ''3. For movies, extract year as an integer if available'' @ [CHR 0x0A]
     @ ''4. For series, ignore the year unless explicitly mentioned'' @ [CHR 0x0A]
     @ ''5. Preserve episode/season information in extra_info'' @ [CHR 0x0A]
     @ ''6. Ensure the output is valid parseable JSON with no additional text'' @ [CHR 0x0A]
     @ [CHR 0x0A]
     @ ''Examples of correct format:'' @ [CHR 0x0A]
     @ ''[{"title":"Movie 1","year":2023,"category":"Hollywood","extra_info":"Action","type":"movie"},{"title":"Series 1","category":"TV Series","extra_info":"Season 2","type":"series"}]'' @ [CHR 0x0A]
     @ [CHR 0x0A]
     @ ''YOUR ENTIRE RESPONSE MUST BE A VALID JSON ARRAY ONLY. DO NOT INCLUDE ANY OTHER TEXT.'' @ [CHR 0x0A]\<close>

text \<open>
  What a run meets outside the program. \<open>ctxDone i\<close> is what the \<open>select\<close> at the top of
  the iteration for the \<open>i\<close>-th source sees: \<open>Some err\<close> when \<open>ctx.Done()\<close> is closed,
  with \<open>err\<close> the value of \<open>ctx.Err()\<close>. \<open>Scrape\<close> and \<open>GenerateText\<close> are the
  scraper and the remote call of a provider during that iteration (\<open>None\<close> is an
  error); \<open>dbFault i k\<close> and \<open>clock i k\<close> are the state of the database and the time
  when the \<open>k\<close>-th record of that iteration is saved.
\<close>

datatype ctx_error = DeadlineExceeded | Canceled

record world =
  ctxDone :: "nat \<Rightarrow> ctx_error option"
  Scrape :: "nat \<Rightarrow> string \<Rightarrow> string option"
  Getenv :: "string \<Rightarrow> string"
  GenerateText :: "nat \<Rightarrow> ModelInterface \<Rightarrow> string \<Rightarrow> string option"
  dbFault :: "nat \<Rightarrow> nat \<Rightarrow> db_fault option"
  clock :: "nat \<Rightarrow> nat \<Rightarrow> timestamp"

text \<open>
  The fields of \<open>ContentScraperJob\<close> that stay fixed during a run; \<open>emailNotifier\<close> says
  whether the pointer is set.
\<close>

record ContentScraperJob =
  sourceURLs :: "string list"
  emailNotifier :: bool
  sendEmails :: bool

text \<open>
  What a run emits: the log lines for a skipped source or record, the summary line with
  the aggregate count and the number of sources, and the call of the notifier.
\<close>

datatype 'f event =
  LogErrorScraping string
| LogNoContentExtracted string
| LogErrorSaving string
| LogJobComplete nat nat
| NotifyContentUpdate "'f Content list" "string list"

text \<open>
  The state a run changes: the table behind \<open>storage\<close>, the model manager, the two
  local accumulators of \<open>Run\<close> and what has been emitted so far.
\<close>

record 'f run_state =
  table :: "'f row list"
  modelMgr :: ModelManager
  totalContentScraped :: nat
  allScrapedContent :: "'f Content list"
  events :: "'f event list"

text \<open>The Gemini block of \<open>Run\<close>: the records it leaves in \<open>contents\<close>.\<close>

definition tryGemini ::
  "world \<Rightarrow> ('f, 'o) json \<Rightarrow> (string \<Rightarrow> 'f option) \<Rightarrow> nat \<Rightarrow> ModelManager \<Rightarrow> string \<Rightarrow>
   ('f Content list \<times> ModelManager) option" where
  "tryGemini W J ParseFloat i m scrapedText =
     (let prompt = buildContentExtractionPrompt;
          geminiConfig = \<lparr>APIKey = Getenv W ''GEMINI_API_KEY'', BaseURL = '''',
                          ModelName = ''gemini-1.5-flash'', Timeout = 0, MaxRetries = 0\<rparr>
      in if APIKey geminiConfig \<noteq> '''' then
           (case CreateModel m ModelTypeGemini geminiConfig of
              (Inl err, m') \<Rightarrow> Some ([], m')
            | (Inr geminiModel, m') \<Rightarrow>
                (case GenerateText W i geminiModel (prompt @ scrapedText) of
                   None \<Rightarrow> Some ([], m')
                 | Some response \<Rightarrow> do {
                     (tiers, contents) \<leftarrow> geminiContents J ParseFloat response;
                     Some (contents, m')
                   }))
         else Some ([], m))"

text \<open>The OpenAI block, entered when \<open>contents\<close> is empty; it starts with the test of the key.\<close>

definition tryOpenAI ::
  "world \<Rightarrow> ('f, 'o) json \<Rightarrow> nat \<Rightarrow> ModelManager \<Rightarrow> string \<Rightarrow>
   ('f Content list \<times> ModelManager) option" where
  "tryOpenAI W J i m scrapedText =
     (if Getenv W ''OPENAI_API_KEY'' \<noteq> '''' then
        (let prompt = buildContentExtractionPrompt;
             openaiConfig = \<lparr>APIKey = Getenv W ''OPENAI_API_KEY'', BaseURL = '''',
                             ModelName = ''gpt-4o'', Timeout = 0, MaxRetries = 0\<rparr>
         in case CreateModel m ModelTypeOpenAI openaiConfig of
              (Inl err, m') \<Rightarrow> Some ([], m')
            | (Inr openaiModel, m') \<Rightarrow>
                (case GenerateText W i openaiModel (prompt @ scrapedText) of
                   None \<Rightarrow> Some ([], m')
                 | Some response \<Rightarrow> do {
                     (tiers, contents) \<leftarrow> openaiContents J response;
                     Some (contents, m')
                   }))
      else Some ([], m))"

definition extractWithProviders ::
  "world \<Rightarrow> ('f, 'o) json \<Rightarrow> (string \<Rightarrow> 'f option) \<Rightarrow> nat \<Rightarrow> ModelManager \<Rightarrow> string \<Rightarrow>
   ('f Content list \<times> ModelManager) option" where
  "extractWithProviders W J ParseFloat i m scrapedText = do {
     (contents, m') \<leftarrow> tryGemini W J ParseFloat i m scrapedText;
     if length contents = 0 then tryOpenAI W J i m' scrapedText else Some (contents, m')
   }"

text \<open>
  The loop that saves the records of one source: the state and the records saved so far
  (\<open>scrapedContentForSource\<close>).
\<close>

fun saveLoop ::
  "world \<Rightarrow> nat \<Rightarrow> nat \<Rightarrow> 'f Content list \<Rightarrow> 'f run_state \<times> 'f Content list \<Rightarrow>
   'f run_state \<times> 'f Content list" where
  "saveLoop W i k [] acc = acc"
| "saveLoop W i k (content # contents) (st, scraped) =
     (case SaveContent (dbFault W i k) (clock W i k) (table st) content of
        Inl err \<Rightarrow>
          saveLoop W i (Suc k) contents
            (st\<lparr>events := events st @ [LogErrorSaving (Title content)]\<rparr>, scraped)
      | Inr rows \<Rightarrow>
          saveLoop W i (Suc k) contents
            (st\<lparr>table := rows, totalContentScraped := totalContentScraped st + 1\<rparr>,
             scraped @ [content]))"

text \<open>The body of the loop over the sources, after the test for cancellation.\<close>

definition processSource ::
  "world \<Rightarrow> ('f, 'o) json \<Rightarrow> (string \<Rightarrow> 'f option) \<Rightarrow> nat \<Rightarrow> string \<Rightarrow> 'f run_state \<Rightarrow>
   'f run_state option" where
  "processSource W J ParseFloat i url st =
     (case Scrape W i url of
        None \<Rightarrow> Some (st\<lparr>events := events st @ [LogErrorScraping url]\<rparr>)
      | Some scrapedText \<Rightarrow> do {
          (contents, m') \<leftarrow> extractWithProviders W J ParseFloat i (modelMgr st) scrapedText;
          let st1 = st\<lparr>modelMgr := m'\<rparr>;
          if length contents > 0 then
            (let contents' = map (\<lambda>c. c\<lparr>SourceURL := Some url\<rparr>) contents;
                 (st2, scrapedContentForSource) = saveLoop W i 0 contents' (st1, [])
             in Some (st2\<lparr>allScrapedContent := allScrapedContent st2 @ scrapedContentForSource\<rparr>))
          else Some (st1\<lparr>events := events st1 @ [LogNoContentExtracted url]\<rparr>)
        })"

text \<open>
  The loop over the sources. The first component of the result is the error of the
  \<open>return ctx.Err()\<close> inside the loop, \<open>None\<close> when the loop runs to its end.
\<close>

fun sourceLoop ::
  "world \<Rightarrow> ('f, 'o) json \<Rightarrow> (string \<Rightarrow> 'f option) \<Rightarrow> nat \<Rightarrow> string list \<Rightarrow> 'f run_state \<Rightarrow>
   (ctx_error option \<times> 'f run_state) option" where
  "sourceLoop W J ParseFloat i [] st = Some (None, st)"
| "sourceLoop W J ParseFloat i (url # urls) st =
     (case ctxDone W i of
        Some err \<Rightarrow> Some (Some err, st)
      | None \<Rightarrow> do {
          st' \<leftarrow> processSource W J ParseFloat i url st;
          sourceLoop W J ParseFloat (Suc i) urls st'
        })"

text \<open>The end of \<open>Run\<close> after the loop: the summary line and the notification.\<close>

definition finishRun :: "ContentScraperJob \<Rightarrow> string list \<Rightarrow> 'f run_state \<Rightarrow> 'f run_state" where
  "finishRun job urls st =
     (let st1 = st\<lparr>events := events st @ [LogJobComplete (totalContentScraped st) (length urls)]\<rparr>
      in if sendEmails job \<and> emailNotifier job \<and> length (allScrapedContent st1) > 0
         then st1\<lparr>events := events st1 @ [NotifyContentUpdate (allScrapedContent st1) urls]\<rparr>
         else st1)"

definition effectiveSources :: "ContentScraperJob \<Rightarrow> string list" where
  "effectiveSources job =
     (if length (sourceURLs job) = 0 then [''https://nkiri.com/''] else sourceURLs job)"

definition initialState :: "'f row list \<Rightarrow> ModelManager \<Rightarrow> 'f run_state" where
  "initialState rows m =
     \<lparr>table = rows, modelMgr = m, totalContentScraped = 0, allScrapedContent = [], events = []\<rparr>"

text \<open>
  \<open>Run\<close>, from the table and the manager the job points to. The result is the returned
  error (\<open>None\<close> for \<open>nil\<close>) and the state at the return; the outer \<open>None\<close> is a panic.
\<close>

definition Run ::
  "world \<Rightarrow> ('f, 'o) json \<Rightarrow> (string \<Rightarrow> 'f option) \<Rightarrow> ContentScraperJob \<Rightarrow> 'f row list \<Rightarrow>
   ModelManager \<Rightarrow> (ctx_error option \<times> 'f run_state) option" where
  "Run W J ParseFloat job rows m = do {
     (err, st) \<leftarrow> sourceLoop W J ParseFloat 0 (effectiveSources job) (initialState rows m);
     (case err of
        Some e \<Rightarrow> Some (Some e, st)
      | None \<Rightarrow> Some (None, finishRun job (effectiveSources job) st))
   }"

section \<open>Scheduler: the job registry (scheduler/scheduler.go)\<close>

text \<open>
  A job is known to the scheduler through its \<open>Name()\<close> method only; the record is
  extensible, so a concrete job may carry more fields.
\<close>

record Job =
  Name :: string

text \<open>
  The scheduler holds the cron engine and the registry \<open>jobs\<close> (a Go map from name to
  job). Of the cron engine the model keeps the list of registered entries: the schedule
  specification paired with the name of the job the registered closure runs.
\<close>

record Scheduler =
  cron :: "(string \<times> string) list"
  jobs :: "string \<rightharpoonup> Job"
  isRunning :: bool

datatype sched_error =
  AlreadyRegistered string
| FailedToAdd string

definition NewScheduler :: Scheduler where
  "NewScheduler = \<lparr>cron = [], jobs = Map.empty, isRunning = False\<rparr>"

text \<open>
  \<open>AddJob\<close>: the parameter \<open>accepts\<close> stands for the cron library's parser
  (\<open>cron.AddFunc\<close> fails exactly on a specification the parser rejects). The result is
  the returned error (\<open>None\<close> for \<open>nil\<close>) and the scheduler after the call.
\<close>

definition AddJob :: "(string \<Rightarrow> bool) \<Rightarrow> Scheduler \<Rightarrow> string \<Rightarrow> Job \<Rightarrow> sched_error option \<times> Scheduler" where
  "AddJob accepts s spec job =
     (let name = Name job in
      if jobs s name \<noteq> None then (Some (AlreadyRegistered name), s)
      else if \<not> accepts spec then (Some (FailedToAdd name), s)
      else (None, s\<lparr>cron := cron s @ [(spec, name)], jobs := (jobs s)(name \<mapsto> job)\<rparr>))"

definition AddMorningEveningJob :: "(string \<Rightarrow> bool) \<Rightarrow> Scheduler \<Rightarrow> Job \<Rightarrow> sched_error option \<times> Scheduler" where
  "AddMorningEveningJob accepts s job =
     (case AddJob accepts s ''0 0 10 * * *'' job of
        (Some err, s') \<Rightarrow> (Some err, s')
      | (None, s') \<Rightarrow> AddJob accepts s' ''0 0 17 * * *'' job)"

section \<open>The specification's reading\<close>

text \<open>
  Tier B as the specification words it: the slice from the first \<open>[\<close> to the last \<open>]\<close>;
  when there is no such pair of brackets, the slice from the first \<open>{\<close> to the last
  \<open>}\<close> wrapped as an array of one element; the empty array when there is neither. The
  repairs and the parse attempts follow on the bracket slice.
\<close>

definition preprocessModelResponse_spec ::
  "('f, 'o) json \<Rightarrow> string \<Rightarrow> (tier list \<times> string) option" where
  "preprocessModelResponse_spec J response0 =
     (let response = stripFences response0;
          i = Index response CHR ''[''; j = LastIndex response CHR '']'';
          oi = Index response CHR ''{''; oj = LastIndex response CHR ''}''
      in if i \<noteq> - 1 \<and> i < j then
           repairAndCheck J (take (nat (j + 1 - i)) (drop (nat i) response))
         else if oi \<noteq> - 1 \<and> oi < oj then
           Some ([TierB], ''['' @ take (nat (oj + 1 - oi)) (drop (nat oi) response) @ '']'')
         else Some ([TierB], ''[]''))"


text \<open>The two things a run emits when it finalizes.\<close>

definition isFinalEvent :: "'f event \<Rightarrow> bool" where
  "isFinalEvent e =
     (case e of LogJobComplete n k \<Rightarrow> True | NotifyContentUpdate cs urls \<Rightarrow> True | _ \<Rightarrow> False)"

section \<open>Examples\<close>

text \<open>
  Instances of the parameters, for the evaluation of examples. \<open>exampleJSON\<close> is a JSON
  library that knows the listed array texts only, each with the records it decodes to,
  and no object text. \<open>lowerASCII\<close> is \<open>strings.ToLower\<close> on ASCII text. In the
  examples a \<open>float64\<close> is the decimal text it was parsed from, and \<open>ParseFloat\<close> is
  \<^term>\<open>Some :: string \<Rightarrow> string option\<close>.
\<close>

definition exampleJSON :: "(string \<times> 'f Content list) list \<Rightarrow> ('f, unit) json" where
  "exampleJSON known =
     \<lparr>UnmarshalContents = map_of known,
      UnmarshalArray = (\<lambda>s. map_of known s \<noteq> None),
      UnmarshalObject = (\<lambda>s. None),
      Marshal = (\<lambda>obj. '''')\<rparr>"


text \<open>
  Responses of a provider, with the record each one holds: an entry of category
  \<open>Korean\<close>; a well-formed array; an array of both; an array that is never closed; a
  fenced block with a trailing comma and the text the repairs turn it into; a single
  object; an array whose entries are not objects; two texts without JSON.
\<close>

definition koreanResponse :: string where
  \<open>koreanResponse = ''[{"title":"X","category":"Korean","extra_info":"Episode 3","type":"series"}]''\<close>

definition koreanRecord :: "'f Content" where
  "koreanRecord =
     \<lparr>Title = ''X'', Year = None, Category = ''Korean'', ExtraInfo = ''Episode 3'',
      Type = ''series'', Rating = None, SourceURL = None\<rparr>"

definition animeResponse :: string where
  \<open>animeResponse = ''[{"title":"Z","category":"Anime","type":"movie"}]''\<close>

definition animeRecord :: "'f Content" where
  "animeRecord =
     \<lparr>Title = ''Z'', Year = None, Category = ''Anime'', ExtraInfo = '''',
      Type = ''movie'', Rating = None, SourceURL = None\<rparr>"

definition mixedResponse :: string where
  \<open>mixedResponse = ''[{"title":"Z","category":"Anime","type":"movie"},{"title":"X","category":"Korean","extra_info":"Episode 3","type":"series"}]''\<close>

definition unclosedResponse :: string where
  \<open>unclosedResponse = ''[{"title":"Y","category":"Anime","type":"movie"}''\<close>

definition fencedResponse :: string where
  \<open>fencedResponse =
     [CHR 0x60, CHR 0x60, CHR 0x60] @ ''json'' @ [CHR 0x0A]
     @ ''[{"title":"X","category":"Foreign","type":"series",}]'' @ [CHR 0x0A]
     @ [CHR 0x60, CHR 0x60, CHR 0x60]\<close>

definition foreignText :: string where
  \<open>foreignText = ''[{"title":"X","category":"Foreign","type":"series"}]''\<close>

definition foreignRecord :: "'f Content" where
  "foreignRecord =
     \<lparr>Title = ''X'', Year = None, Category = ''Foreign'', ExtraInfo = '''',
      Type = ''series'', Rating = None, SourceURL = None\<rparr>"

definition objectResponse :: string where
  \<open>objectResponse = ''{"title":"Y","category":"Anime","type":"movie"}''\<close>

definition brokenArray :: string where
  \<open>brokenArray = ''[{"title": oops}, 7]''\<close>

definition notJSON :: string where
  "notJSON = ''not json at all, [1, 2,''"

definition plainText :: string where
  "plainText = ''I could not find any titles.''"

text \<open>Two object blocks: a year beyond the range of \<open>int\<close>, and an empty title.\<close>

definition overflowYearObject :: string where
  \<open>overflowYearObject =
     ''{"title":"Z","year":99999999999999999999,"category":"korean","type":"movie"}''\<close>

definition emptyTitleObject :: string where
  \<open>emptyTitleObject = ''{"title":"","category":"Anime","type":"movie"}''\<close>

text \<open>
  JSON libraries for the examples: one that rejects every text, one that decodes
  \<open>koreanResponse\<close> to its record, one that decodes \<open>foreignText\<close> to its record, one
  that decodes \<open>mixedResponse\<close> to its two records.
\<close>

definition emptyJSON :: "(string, unit) json" where
  "emptyJSON = exampleJSON []"

definition koreanJSON :: "(string, unit) json" where
  "koreanJSON = exampleJSON [(koreanResponse, [koreanRecord])]"

definition foreignJSON :: "(string, unit) json" where
  "foreignJSON = exampleJSON [(foreignText, [foreignRecord])]"

definition mixedJSON :: "(string, unit) json" where
  "mixedJSON = exampleJSON [(mixedResponse, [animeRecord, koreanRecord])]"

text \<open>
  Surroundings of a run. In \<open>exampleWorld\<close> every source can be scraped, only the key
  of Gemini is set, every provider call answers with the given response and the
  database is healthy. The variations: a deadline that has passed at the checkpoint of
  source \<open>n\<close> and of every later one, no deadline at all, a scraper that fails on the
  first source only, an environment without keys, and a database that fails on the
  first record of every source. The job has two sources and a notifier.
\<close>

definition exampleWorld :: "string \<Rightarrow> (nat \<Rightarrow> ctx_error option) \<Rightarrow> world" where
  "exampleWorld response done =
     \<lparr>ctxDone = done,
      Scrape = (\<lambda>i url. Some ''page''),
      Getenv = (\<lambda>name. if name = ''GEMINI_API_KEY'' then ''key'' else ''''),
      GenerateText = (\<lambda>i model prompt. Some response),
      dbFault = (\<lambda>i k. None),
      clock = (\<lambda>i k. 100 + i)\<rparr>"

definition deadlineAt :: "nat \<Rightarrow> nat \<Rightarrow> ctx_error option" where
  "deadlineAt n i = (if n \<le> i then Some DeadlineExceeded else None)"

definition noDeadline :: "nat \<Rightarrow> ctx_error option" where
  "noDeadline i = None"




definition exampleJob :: ContentScraperJob where
  "exampleJob = \<lparr>sourceURLs = [''a'', ''b''], emailNotifier = True, sendEmails = True\<rparr>"




section \<open>Indices and slices\<close>

text \<open>
  What \<open>Index\<close>, \<open>LastIndex\<close> and \<open>slice\<close> return on a text given by its parts, and the
  range of the indices: every slice expression of the source is within bounds.
\<close>

lemma takeWhile_neq_length: "c \<in> set s \<Longrightarrow> length (takeWhile (\<lambda>x. x \<noteq> c) s) < length s"
  by (induction s) auto

lemma takeWhile_neq_all: "c \<notin> set s \<Longrightarrow> takeWhile (\<lambda>x. x \<noteq> c) s = s"
  by (induction s) auto

lemma Index_range: "- 1 \<le> Index s c \<and> Index s c < int (length s)"
  using takeWhile_neq_length[of c s] by (auto simp: Index_def)

lemma Index_found: "Index s c \<noteq> - 1 \<Longrightarrow> 0 \<le> Index s c"
  by (auto simp: Index_def split: if_splits)

lemma LastIndex_range: "- 1 \<le> LastIndex s c \<and> LastIndex s c < int (length s)"
  using takeWhile_neq_length[of c "rev s"] by (auto simp: LastIndex_def)

lemma Index_append: "c \<notin> set pre \<Longrightarrow> Index (pre @ c # rest) c = int (length pre)"
  by (simp add: Index_def takeWhile_tail takeWhile_neq_all)

lemma Index_absent: "c \<notin> set s \<Longrightarrow> Index s c = - 1"
  by (simp add: Index_def)

lemma LastIndex_absent: "c \<notin> set s \<Longrightarrow> LastIndex s c = - 1"
  by (simp add: LastIndex_def)

lemma LastIndex_append: "c \<notin> set post \<Longrightarrow> LastIndex (pre @ c # post) c = int (length pre)"
proof -
  assume a: "c \<notin> set post"
  have "takeWhile (\<lambda>x. x \<noteq> c) (rev post @ c # rev pre) = rev post"
    using a by (simp add: takeWhile_tail takeWhile_neq_all)
  then show ?thesis by (simp add: LastIndex_def)
qed

lemma LastIndex_before: "c \<notin> set post \<Longrightarrow> LastIndex (pre @ post) c < int (length pre)"
proof (cases "c \<in> set pre")
  case False
  assume "c \<notin> set post"
  with False show ?thesis by (simp add: LastIndex_def)
next
  case True
  assume a: "c \<notin> set post"
  from True obtain p1 p2 where p: "pre = p1 @ c # p2" "c \<notin> set p2"
    by (meson split_list_last)
  have "LastIndex (p1 @ c # (p2 @ post)) c = int (length p1)"
    using a p by (intro LastIndex_append) auto
  with p show ?thesis by simp
qed

lemma slice_middle:
  "slice (pre @ mid @ post) (int (length pre)) (int (length pre) + int (length mid)) = Some mid"
  by (simp add: slice_def)

lemma slice_total: "0 \<le> lo \<Longrightarrow> lo \<le> hi \<Longrightarrow> hi \<le> int (length s) \<Longrightarrow> \<exists>t. slice s lo hi = Some t"
  by (simp add: slice_def)

lemma truncateString_total: "0 \<le> n \<Longrightarrow> \<exists>t. truncateString s n = Some t"
  by (auto simp: truncateString_def slice_def)

lemma brackets_length: "HasPrefix input ''['' \<Longrightarrow> HasSuffix input '']'' \<Longrightarrow> 2 \<le> length input"
  by (cases input; cases "tl input") (auto simp: HasPrefix_def HasSuffix_def)

section \<open>No tier panics\<close>

lemma reformatJSON_total: "\<exists>t. reformatJSON J input = Some t"
  using brackets_length[of input] by (auto simp: reformatJSON_def slice_def Let_def)

lemma repairAndCheck_total: "\<exists>t s. repairAndCheck J x = Some (t, s)"
proof -
  have "\<And>y. \<exists>t. reformatJSON J y = Some t" by (rule reformatJSON_total)
  then show ?thesis
    unfolding repairAndCheck_def Let_def by (simp split: if_splits) (metis bind.bind_lunit)
qed

lemma preprocessModelResponse_total: "\<exists>t s. preprocessModelResponse J r = Some (t, s)"
proof -
  obtain u where u: "truncateString r 200 = Some u" using truncateString_total[of 200 r] by auto
  let ?r = "stripFences r"
  show ?thesis
  proof (cases "Index ?r CHR ''['' = - 1")
    case True
    show ?thesis
    proof (cases "Index ?r CHR ''{'' \<noteq> - 1 \<and> LastIndex ?r CHR ''}'' \<noteq> - 1 \<and> LastIndex ?r CHR ''}'' > Index ?r CHR ''{''")
      case t: True
      then obtain w where "slice ?r (Index ?r CHR ''{'') (LastIndex ?r CHR ''}'' + 1) = Some w"
        using slice_total[of "Index ?r CHR ''{''" "LastIndex ?r CHR ''}'' + 1" ?r]
          Index_found[of ?r "CHR ''{''"] LastIndex_range[of ?r "CHR ''}''"] by auto
      with u True t show ?thesis by (simp add: preprocessModelResponse_def Let_def)
    next
      case False
      then have "\<not> (Index ?r CHR ''{'' \<noteq> - 1 \<and> LastIndex ?r CHR ''}'' \<noteq> - 1 \<and> Index ?r CHR ''{'' < LastIndex ?r CHR ''}'')"
        by auto
      with u True show ?thesis by (simp add: preprocessModelResponse_def Let_def del: de_Morgan_conj)
    qed
  next
    case False
    show ?thesis
    proof (cases "LastIndex ?r CHR '']'' = - 1 \<or> LastIndex ?r CHR '']'' \<le> Index ?r CHR ''[''")
      case True
      with u False show ?thesis by (simp add: preprocessModelResponse_def Let_def)
    next
      case f: False
      then obtain w where w: "slice ?r (Index ?r CHR ''['') (LastIndex ?r CHR '']'' + 1) = Some w"
        using slice_total[of "Index ?r CHR ''[''" "LastIndex ?r CHR '']'' + 1" ?r]
          Index_found[of ?r "CHR ''[''"] LastIndex_range[of ?r "CHR '']''"] False by auto
      obtain v where v: "truncateString w 200 = Some v" using truncateString_total[of 200 w] by auto
      from u False f w v repairAndCheck_total[of J w] show ?thesis
        by (simp add: preprocessModelResponse_def Let_def)
    qed
  qed
qed

lemma geminiContents_total: "\<exists>t cs. geminiContents J pf r = Some (t, cs)"
proof -
  obtain t s where p: "preprocessModelResponse J r = Some (t, s)"
    using preprocessModelResponse_total by blast
  obtain a where a: "truncateString r 100 = Some a" using truncateString_total[of 100 r] by auto
  obtain b where b: "truncateString s 100 = Some b" using truncateString_total[of 100 s] by auto
  show ?thesis using p a b by (simp add: geminiContents_def Let_def)
qed

lemma openaiContents_total: "\<exists>t cs. openaiContents J r = Some (t, cs)"
  using preprocessModelResponse_total[of J r] by (auto simp: openaiContents_def)

lemma repairAndCheck_tiers:
  "repairAndCheck J x = Some (ts, s) \<Longrightarrow> ts = [TierB] \<or> ts = [TierB, TierC]"
  unfolding repairAndCheck_def Let_def
  by (auto split: if_splits simp: bind_eq_Some_conv)

lemma preprocessModelResponse_tiers:
  "preprocessModelResponse J r = Some (ts, s) \<Longrightarrow> ts = [TierB] \<or> ts = [TierB, TierC]"
  unfolding preprocessModelResponse_def Let_def
  by (auto split: if_splits simp: bind_eq_Some_conv dest: repairAndCheck_tiers)

lemma tryGemini_total: "\<exists>cs m'. tryGemini W J pf i m text = Some (cs, m')"
proof -
  have g: "\<And>r. \<exists>t cs. geminiContents J pf r = Some (t, cs)" by (rule geminiContents_total)
  show ?thesis
    unfolding tryGemini_def Let_def
    by (auto split: prod.splits sum.splits option.splits) (metis g bind.bind_lunit case_prod_conv)
qed

lemma tryOpenAI_total: "\<exists>cs m'. tryOpenAI W J i m text = Some (cs, m')"
proof -
  have g: "\<And>r. \<exists>t cs. openaiContents J r = Some (t, cs)" by (rule openaiContents_total)
  show ?thesis
    unfolding tryOpenAI_def Let_def
    by (auto split: prod.splits sum.splits option.splits) (metis g bind.bind_lunit case_prod_conv)
qed

lemma extractWithProviders_total: "\<exists>cs m'. extractWithProviders W J pf i m text = Some (cs, m')"
proof -
  obtain g m1 where g: "tryGemini W J pf i m text = Some (g, m1)" using tryGemini_total by blast
  obtain oc m2 where oc: "tryOpenAI W J i m1 text = Some (oc, m2)" using tryOpenAI_total by blast
  show ?thesis using g oc by (simp add: extractWithProviders_def)
qed

lemma processSource_total: "\<exists>st'. processSource W J pf i url st = Some st'"
proof (cases "Scrape W i url")
  case None
  then show ?thesis by (simp add: processSource_def)
next
  case (Some page)
  obtain cs m' where e: "extractWithProviders W J pf i (modelMgr st) page = Some (cs, m')"
    using extractWithProviders_total by blast
  show ?thesis using Some e by (simp add: processSource_def Let_def split: prod.splits)
qed

section \<open>The loops of a run\<close>

text \<open>
  Neither the loop over the records nor the loop over the sources emits a summary line
  or calls the notifier; the loop over the sources can be cut at any source; it runs to
  its end when no checkpoint sees a cancellation, and it returns an error only from a
  checkpoint that does.
\<close>

lemma saveLoop_events:
  "list_all (\<lambda>e. \<not> isFinalEvent e) (events st) \<Longrightarrow>
   list_all (\<lambda>e. \<not> isFinalEvent e) (events (fst (saveLoop W i k cs (st, sc))))"
  by (induction cs arbitrary: k st sc) (auto simp: isFinalEvent_def split: sum.splits)

lemma processSource_events:
  assumes "processSource W J pf i url st = Some st'"
    and "list_all (\<lambda>e. \<not> isFinalEvent e) (events st)"
  shows "list_all (\<lambda>e. \<not> isFinalEvent e) (events st')"
proof (cases "Scrape W i url")
  case None
  with assms show ?thesis by (auto simp: processSource_def isFinalEvent_def)
next
  case (Some page)
  obtain cs m' where e: "extractWithProviders W J pf i (modelMgr st) page = Some (cs, m')"
    using extractWithProviders_total by blast
  show ?thesis
  proof (cases "cs = []")
    case True
    with assms Some e show ?thesis by (auto simp: processSource_def isFinalEvent_def)
  next
    case False
    let ?st1 = "st\<lparr>modelMgr := m'\<rparr>"
    have "list_all (\<lambda>e. \<not> isFinalEvent e)
            (events (fst (saveLoop W i 0 (map (\<lambda>c. c\<lparr>SourceURL := Some url\<rparr>) cs) (?st1, []))))"
      using assms(2) by (intro saveLoop_events) simp
    with assms Some e False show ?thesis
      by (auto simp: processSource_def Let_def split: prod.splits)
  qed
qed

lemma sourceLoop_events:
  "sourceLoop W J pf i urls st = Some (r, st') \<Longrightarrow>
   list_all (\<lambda>e. \<not> isFinalEvent e) (events st) \<Longrightarrow>
   list_all (\<lambda>e. \<not> isFinalEvent e) (events st')"
proof (induction urls arbitrary: i st)
  case Nil
  then show ?case by simp
next
  case (Cons url urls)
  show ?case
  proof (cases "ctxDone W i")
    case (Some err)
    with Cons.prems show ?thesis by simp
  next
    case None
    obtain st1 where p: "processSource W J pf i url st = Some st1"
      using processSource_total by blast
    with Cons.prems None have "sourceLoop W J pf (Suc i) urls st1 = Some (r, st')" by simp
    moreover have "list_all (\<lambda>e. \<not> isFinalEvent e) (events st1)"
      using processSource_events[OF p Cons.prems(2)] .
    ultimately show ?thesis by (rule Cons.IH)
  qed
qed

lemma sourceLoop_append:
  "sourceLoop W J pf i (pre @ rest) st =
     (case sourceLoop W J pf i pre st of
        None \<Rightarrow> None
      | Some (Some e, st') \<Rightarrow> Some (Some e, st')
      | Some (None, st') \<Rightarrow> sourceLoop W J pf (i + length pre) rest st')"
proof (induction pre arbitrary: i st)
  case Nil
  then show ?case by simp
next
  case (Cons url pre)
  show ?case
  proof (cases "ctxDone W i")
    case (Some err)
    then show ?thesis by simp
  next
    case None
    obtain st1 where p: "processSource W J pf i url st = Some st1"
      using processSource_total by blast
    show ?thesis using None p Cons.IH[of "Suc i" st1] by (simp split: option.splits prod.splits)
  qed
qed

lemma sourceLoop_completes:
  "(\<forall>k < length urls. ctxDone W (i + k) = None) \<Longrightarrow>
   \<exists>st'. sourceLoop W J pf i urls st = Some (None, st')"
proof (induction urls arbitrary: i st)
  case Nil
  then show ?case by simp
next
  case (Cons url urls)
  have d: "ctxDone W i = None" using Cons.prems[rule_format, of 0] by simp
  obtain st1 where p: "processSource W J pf i url st = Some st1"
    using processSource_total by blast
  have "\<forall>k < length urls. ctxDone W (Suc i + k) = None"
    using Cons.prems by (metis Suc_less_eq add_Suc_shift length_Cons)
  from Cons.IH[OF this, of st1] d p show ?case by simp
qed


text \<open>A key \<open>(title, type)\<close> that is in the table stays in the table.\<close>

lemma SaveContent_keeps_keys:
  "SaveContent fault now rows c = Inr rows' \<Longrightarrow>
   list_ex (\<lambda>r. title r = t \<and> type r = ty) rows \<Longrightarrow>
   list_ex (\<lambda>r. title r = t \<and> type r = ty) rows'"
proof -
  assume s: "SaveContent fault now rows c = Inr rows'"
    and k: "list_ex (\<lambda>r. title r = t \<and> type r = ty) rows"
  let ?f = "\<lambda>r. if hasKey c r then updateRow now c r else r"
  have f: "\<And>r. title (?f r) = title r \<and> type (?f r) = type r"
    by (simp add: updateRow_def)
  from k obtain r where r: "r \<in> set rows" "title r = t" "type r = ty"
    by (auto simp: list_ex_iff)
  have "rows' = map ?f rows \<or> rows' = rows @ [insertRow now c]"
    using s by (auto simp: SaveContent_def split: if_splits)
  then show ?thesis
  proof
    assume "rows' = map ?f rows"
    then have "?f r \<in> set rows'" using r(1) by simp
    moreover have "title (?f r) = t \<and> type (?f r) = ty" using f r by simp
    ultimately show ?thesis unfolding list_ex_iff by blast
  next
    assume "rows' = rows @ [insertRow now c]"
    then show ?thesis using r by (auto simp: list_ex_iff)
  qed
qed

lemma saveLoop_keeps_keys:
  "list_ex (\<lambda>r. title r = t \<and> type r = ty) (table st) \<Longrightarrow>
   list_ex (\<lambda>r. title r = t \<and> type r = ty) (table (fst (saveLoop W i k cs (st, sc))))"
proof (induction cs arbitrary: k st sc)
  case Nil
  then show ?case by simp
next
  case (Cons c cs)
  show ?case
  proof (cases "SaveContent (dbFault W i k) (clock W i k) (table st) c")
    case (Inl e)
    then show ?thesis using Cons by simp
  next
    case (Inr rows')
    have "list_ex (\<lambda>r. title r = t \<and> type r = ty) rows'"
      using SaveContent_keeps_keys[OF Inr Cons.prems] .
    then show ?thesis using Inr Cons.IH[of "st\<lparr>table := rows', totalContentScraped := totalContentScraped st + 1\<rparr>"] by simp
  qed
qed

lemma processSource_keeps_keys:
  assumes "processSource W J pf i url st = Some st'"
    and "list_ex (\<lambda>r. title r = t \<and> type r = ty) (table st)"
  shows "list_ex (\<lambda>r. title r = t \<and> type r = ty) (table st')"
proof (cases "Scrape W i url")
  case None
  with assms show ?thesis by (auto simp: processSource_def)
next
  case (Some page)
  obtain cs m' where e: "extractWithProviders W J pf i (modelMgr st) page = Some (cs, m')"
    using extractWithProviders_total by blast
  show ?thesis
  proof (cases "cs = []")
    case True
    with assms Some e show ?thesis by (auto simp: processSource_def)
  next
    case False
    let ?st1 = "st\<lparr>modelMgr := m'\<rparr>"
    have "list_ex (\<lambda>r. title r = t \<and> type r = ty)
            (table (fst (saveLoop W i 0 (map (\<lambda>c. c\<lparr>SourceURL := Some url\<rparr>) cs) (?st1, []))))"
      using assms(2) by (intro saveLoop_keeps_keys) simp
    with assms Some e False show ?thesis
      by (auto simp: processSource_def Let_def split: prod.splits)
  qed
qed

lemma sourceLoop_keeps_keys:
  "sourceLoop W J pf i urls st = Some (r, st') \<Longrightarrow>
   list_ex (\<lambda>r. title r = t \<and> type r = ty) (table st) \<Longrightarrow>
   list_ex (\<lambda>r. title r = t \<and> type r = ty) (table st')"
proof (induction urls arbitrary: i st)
  case Nil
  then show ?case by simp
next
  case (Cons url urls)
  show ?case
  proof (cases "ctxDone W i")
    case (Some err)
    with Cons.prems show ?thesis by simp
  next
    case None
    obtain st1 where p: "processSource W J pf i url st = Some st1"
      using processSource_total by blast
    with Cons.prems None have "sourceLoop W J pf (Suc i) urls st1 = Some (r, st')" by simp
    moreover have "list_ex (\<lambda>r. title r = t \<and> type r = ty) (table st1)"
      using processSource_keeps_keys[OF p Cons.prems(2)] .
    ultimately show ?thesis by (rule Cons.IH)
  qed
qed

section \<open>Tier B, case by case\<close>

lemma preprocess_brackets:
  assumes d: "stripFences r = pre @ ''['' @ mid @ '']'' @ post"
    and p: "CHR ''['' \<notin> set pre" and q: "CHR '']'' \<notin> set post"
  shows "preprocessModelResponse J r = repairAndCheck J (''['' @ mid @ '']'')"
proof -
  obtain u where u: "truncateString r 200 = Some u" using truncateString_total[of 200 r] by auto
  have i: "Index (stripFences r) CHR ''['' = int (length pre)"
    using Index_append[OF p, of "mid @ '']'' @ post"] d by simp
  have "LastIndex ((pre @ ''['' @ mid) @ CHR '']'' # post) CHR '']'' = int (length (pre @ ''['' @ mid))"
    using q by (rule LastIndex_append)
  then have j: "LastIndex (stripFences r) CHR '']'' = int (length pre) + 1 + int (length mid)"
    using d by simp
  have "slice (pre @ (''['' @ mid @ '']'') @ post) (int (length pre))
          (int (length pre) + int (length (''['' @ mid @ '']''))) = Some (''['' @ mid @ '']'')"
    by (rule slice_middle)
  then have s: "slice (stripFences r) (int (length pre)) (int (length pre) + 1 + int (length mid) + 1)
                  = Some (''['' @ mid @ '']'')"
    using d by (simp add: add.commute add.left_commute)
  obtain v where v: "truncateString (''['' @ mid @ '']'') 200 = Some v"
    using truncateString_total[of 200 "''['' @ mid @ '']''"] by auto
  show ?thesis using u i j s v by (simp add: preprocessModelResponse_def Let_def)
qed

lemma preprocess_unclosed:
  assumes d: "stripFences r = pre @ ''['' @ rest"
    and p: "CHR ''['' \<notin> set pre" and q: "CHR '']'' \<notin> set rest"
  shows "preprocessModelResponse J r = Some ([TierB], ''[]'')"
proof -
  obtain u where u: "truncateString r 200 = Some u" using truncateString_total[of 200 r] by auto
  have i: "Index (stripFences r) CHR ''['' = int (length pre)"
    using Index_append[OF p, of rest] d by simp
  have "CHR '']'' \<notin> set (''['' @ rest)" using q by simp
  from LastIndex_before[OF this, of pre]
  have j: "LastIndex (stripFences r) CHR '']'' < int (length pre)" using d by simp
  show ?thesis using u i j by (simp add: preprocessModelResponse_def Let_def)
qed

lemma preprocess_object:
  assumes d: "stripFences r = pre @ ''{'' @ mid @ ''}'' @ post"
    and n: "CHR ''['' \<notin> set (stripFences r)"
    and p: "CHR ''{'' \<notin> set pre" and q: "CHR ''}'' \<notin> set post"
  shows "preprocessModelResponse J r = Some ([TierB], ''['' @ ''{'' @ mid @ ''}'' @ '']'')"
proof -
  obtain u where u: "truncateString r 200 = Some u" using truncateString_total[of 200 r] by auto
  have b: "Index (stripFences r) CHR ''['' = - 1" using n by (rule Index_absent)
  have i: "Index (stripFences r) CHR ''{'' = int (length pre)"
    using Index_append[OF p, of "mid @ ''}'' @ post"] d by simp
  have "LastIndex ((pre @ ''{'' @ mid) @ CHR ''}'' # post) CHR ''}'' = int (length (pre @ ''{'' @ mid))"
    using q by (rule LastIndex_append)
  then have j: "LastIndex (stripFences r) CHR ''}'' = int (length pre) + 1 + int (length mid)"
    using d by simp
  have "slice (pre @ (''{'' @ mid @ ''}'') @ post) (int (length pre))
          (int (length pre) + int (length (''{'' @ mid @ ''}''))) = Some (''{'' @ mid @ ''}'')"
    by (rule slice_middle)
  then have s: "slice (stripFences r) (int (length pre)) (int (length pre) + 1 + int (length mid) + 1)
                  = Some (''{'' @ mid @ ''}'')"
    using d by (simp add: add.commute add.left_commute)
  show ?thesis using u b i j s by (simp add: preprocessModelResponse_def Let_def)
qed

lemma preprocess_nothing:
  assumes n: "CHR ''['' \<notin> set (stripFences r)"
    and o: "CHR ''{'' \<notin> set (stripFences r)
            \<or> (stripFences r = pre @ ''{'' @ rest \<and> CHR ''{'' \<notin> set pre \<and> CHR ''}'' \<notin> set rest)"
  shows "preprocessModelResponse J r = Some ([TierB], ''[]'')"
proof -
  obtain u where u: "truncateString r 200 = Some u" using truncateString_total[of 200 r] by auto
  have b: "Index (stripFences r) CHR ''['' = - 1" using n by (rule Index_absent)
  have "Index (stripFences r) CHR ''{'' = - 1
        \<or> \<not> Index (stripFences r) CHR ''{'' < LastIndex (stripFences r) CHR ''}''"
  proof (cases "CHR ''{'' \<notin> set (stripFences r)")
    case True
    then show ?thesis by (simp add: Index_absent)
  next
    case False
    with o have d: "stripFences r = pre @ ''{'' @ rest" and p: "CHR ''{'' \<notin> set pre"
      and q: "CHR ''}'' \<notin> set rest" by auto
    have i: "Index (stripFences r) CHR ''{'' = int (length pre)"
      using Index_append[OF p, of rest] d by simp
    have "CHR ''}'' \<notin> set (''{'' @ rest)" using q by simp
    from LastIndex_before[OF this, of pre]
    have "LastIndex (stripFences r) CHR ''}'' < int (length pre)" using d by simp
    with i show ?thesis by simp
  qed
  then have "\<not> (Index (stripFences r) CHR ''{'' \<noteq> - 1 \<and> LastIndex (stripFences r) CHR ''}'' \<noteq> - 1
               \<and> Index (stripFences r) CHR ''{'' < LastIndex (stripFences r) CHR ''}'')"
    by auto
  with u b show ?thesis by (simp add: preprocessModelResponse_def Let_def del: de_Morgan_conj)
qed

lemma repairAndCheck_unfold:
  "repairAndCheck J x =
     (let s = removeTrailingCommas (stripControl (unescapeQuotes (quoteBareValues
                (fixColonSpacing (removeBackticks x)))))
      in if UnmarshalArray J s then Some ([TierB], s)
         else if UnmarshalArray J (fixQuotes s) then Some ([TierB], fixQuotes s)
         else map_option (Pair [TierB, TierC]) (reformatJSON J (fixQuotes s)))"
proof -
  have "\<And>y. (reformatJSON J y \<bind> (\<lambda>r. Some ([TierB, TierC], r)))
             = map_option (Pair [TierB, TierC]) (reformatJSON J y)"
    by (simp split: bind_splits option.splits)
  then show ?thesis by (simp add: repairAndCheck_def Let_def)
qed

lemma reformatJSON_none_survive:
  assumes "list_all (\<lambda>p. UnmarshalObject J p = None)
             (fragments (take (length input - 2) (drop 1 input)))"
  shows "reformatJSON J input = Some ''[]''"
proof (cases "HasPrefix input ''['' \<and> HasSuffix input '']''")
  case False
  then show ?thesis by (auto simp: reformatJSON_def)
next
  case True
  then have len: "2 \<le> length input" using brackets_length by blast
  then have s: "slice input 1 (int (length input) - 1) = Some (take (length input - 2) (drop 1 input))"
    by (simp add: slice_def nat_diff_distrib' of_nat_diff)
  have "List.map_filter (\<lambda>trimmed. map_option (Marshal J) (UnmarshalObject J trimmed))
          (fragments (take (length input - 2) (drop 1 input))) = []"
    using assms by (induction "fragments (take (length input - 2) (drop 1 input))")
      (auto simp: List.map_filter_def list_all_iff)
  with True s show ?thesis by (simp add: reformatJSON_def)
qed

section \<open>Evaluation of the examples\<close>

lemma korean_tierA: "extractContentManually pf koreanResponse = []"
  unfolding koreanResponse_def
  by (simp add: extractContentManually_def objectPattern_def HasPrefix_def List.map_filter_def
      extractObject_def titlePattern_def categoryPattern_def quotedField_def afterLabel_def isSpace_def)

lemma korean_repairs:
  "removeTrailingCommas (stripControl (unescapeQuotes (quoteBareValues (fixColonSpacing
     (removeBackticks koreanResponse))))) = koreanResponse"
  unfolding koreanResponse_def by code_simp

lemma korean_split:
  "stripFences koreanResponse
     = [] @ ''['' @ take (length koreanResponse - 2) (drop 1 koreanResponse) @ '']'' @ []
   \<and> ''['' @ take (length koreanResponse - 2) (drop 1 koreanResponse) @ '']'' = koreanResponse"
  unfolding koreanResponse_def by code_simp

lemma korean_tierB:
  assumes "UnmarshalArray J koreanResponse"
  shows "preprocessModelResponse J koreanResponse = Some ([TierB], koreanResponse)"
proof -
  have "preprocessModelResponse J koreanResponse = repairAndCheck J koreanResponse"
    using preprocess_brackets [of koreanResponse "[]" "take (length koreanResponse - 2) (drop 1 koreanResponse)" "[]" J]
      korean_split by simp
  then show ?thesis using assms by (simp add: repairAndCheck_unfold korean_repairs)
qed

lemma korean_saved:
  "map_option (map category \<circ> table \<circ> snd)
     (Run (exampleWorld koreanResponse noDeadline) koreanJSON Some exampleJob [] NewModelManager)
   = Some [''Korean'']"
  unfolding koreanResponse_def koreanJSON_def koreanRecord_def by code_simp

lemma anime_tierA: "extractContentManually Some animeResponse = [animeRecord]"
  unfolding animeResponse_def animeRecord_def by code_simp

lemma mixed_tierA: "extractContentManually Some mixedResponse = [animeRecord]"
  unfolding mixedResponse_def animeRecord_def by code_simp

lemma fenced_split:
  "stripFences fencedResponse
     = [CHR 0x0A] @ ''['' @ (take (length foreignText - 3) (drop 1 foreignText) @ '',}'') @ '']'' @ [CHR 0x0A]"
  unfolding fencedResponse_def foreignText_def by code_simp

lemma fenced_repaired:
  "removeTrailingCommas (stripControl (unescapeQuotes (quoteBareValues (fixColonSpacing
     (removeBackticks (''['' @ (take (length foreignText - 3) (drop 1 foreignText) @ '',}'') @ '']''))))))
   = foreignText"
  unfolding foreignText_def by code_simp

lemma notJSON_tierB:
  "preprocessModelResponse (exampleJSON [(''[]'', [])] :: (string, unit) json) notJSON
     = Some ([TierB], ''[]'')"
  unfolding notJSON_def by code_simp

section \<open>Tier A: the field rules\<close>

lemma FindStringSubmatch_quoted_nonempty:
  "FindStringSubmatch (quotedField l) s \<noteq> Some []"
  apply (induction s)
   apply (auto simp: quotedField_def afterLabel_def Let_def split: option.splits list.splits if_splits)
  done

text \<open>
  Claim C4. The field bag of an object block is what the six label patterns capture in
  it. The block is rejected exactly when the title pattern captures nothing, or the
  category pattern captures nothing or captures \<open>Korean\<close> (compared byte by byte, so
  \<open>korean\<close> passes), or the type pattern captures neither \<open>movie\<close> nor \<open>series\<close>. A
  captured title or category is never empty, so an empty value counts as absent. For an
  accepted block \<open>extraInfo\<close> is the captured text, or the empty string when there is
  none; the year is the captured digits when \<open>Atoi\<close> accepts them and is dropped
  otherwise, the rating likewise with \<open>ParseFloat\<close>; neither takes part in the decision
  to reject.
\<close>

theorem validator_rules:
  "(extractObject pf obj = None \<longleftrightarrow>
      titlePattern obj = None
      \<or> categoryPattern obj = None \<or> categoryPattern obj = Some ''Korean''
      \<or> (typePattern obj \<noteq> Some ''movie'' \<and> typePattern obj \<noteq> Some ''series''))
   \<and> titlePattern obj \<noteq> Some '''' \<and> categoryPattern obj \<noteq> Some ''''
   \<and> (\<forall>c. extractObject pf obj = Some c \<longrightarrow>
         Some (Title c) = titlePattern obj \<and> Some (Category c) = categoryPattern obj
         \<and> Some (Type c) = typePattern obj
         \<and> ExtraInfo c = (case extraInfoPattern obj of None \<Rightarrow> '''' | Some e \<Rightarrow> e)
         \<and> Year c = Option.bind (yearPattern obj) Atoi
         \<and> Rating c = Option.bind (ratingPattern obj) pf
         \<and> SourceURL c = None)"
  unfolding titlePattern_def categoryPattern_def
  using FindStringSubmatch_quoted_nonempty
  apply (auto simp: extractObject_def Let_def titlePattern_def categoryPattern_def split: option.splits)
  done

theorem validator_rules_witness:
  "extractObject Some overflowYearObject \<noteq> None
   \<and> map_option Year (extractObject Some overflowYearObject) = Some None
   \<and> map_option ExtraInfo (extractObject Some overflowYearObject) = Some ''''
   \<and> extractObject Some emptyTitleObject = None"
proof -
  have p: "titlePattern overflowYearObject = Some ''Z''"
    "categoryPattern overflowYearObject = Some ''korean''"
    "typePattern overflowYearObject = Some ''movie''"
    "extraInfoPattern overflowYearObject = None"
    "yearPattern overflowYearObject = Some ''99999999999999999999''"
    "Atoi ''99999999999999999999'' = None"
    "titlePattern emptyTitleObject = None"
    unfolding overflowYearObject_def emptyTitleObject_def by code_simp+
  have a: "extractObject Some overflowYearObject \<noteq> None"
    using validator_rules [of Some overflowYearObject] p by simp
  then obtain c where c: "extractObject Some overflowYearObject = Some c" by blast
  have "Year c = None \<and> ExtraInfo c = ''''"
    using validator_rules [of Some overflowYearObject] c p by simp
  moreover have "extractObject Some emptyTitleObject = None"
    using validator_rules [of Some emptyTitleObject] p by simp
  ultimately show ?thesis using a c by simp
qed

section \<open>The normalization pipeline\<close>

text \<open>
  Claim C6, as amended. \<open>Run\<close> treats the responses of its two providers differently.
  For a response of the Gemini provider, when Tier A finds at least one record, the
  records of the response are exactly those of Tier A and Tier A is the only tier that
  ran: neither \<open>preprocessModelResponse\<close> nor \<open>reformatJSON\<close> is entered. For a
  response of the OpenAI provider, Tier A never runs: every response goes to
  \<open>preprocessModelResponse\<close>, so Tier B runs (and Tier C when Tier B leaves no valid
  array), and the records are the decoding of the processed text, whatever Tier A
  would have found.
\<close>

theorem tier_short_circuit:
  "(extractContentManually pf r \<noteq> [] \<longrightarrow>
      geminiContents J pf r = Some ([TierA], extractContentManually pf r))
   \<and> (\<exists>ts p. preprocessModelResponse J r = Some (ts, p)
         \<and> openaiContents J r = Some (ts, parseProcessed J p)
         \<and> (ts = [TierB] \<or> ts = [TierB, TierC]))"
proof (intro conjI impI)
  assume "extractContentManually pf r \<noteq> []"
  then show "geminiContents J pf r = Some ([TierA], extractContentManually pf r)"
    by (simp add: geminiContents_def Let_def)
next
  obtain ts p where p: "preprocessModelResponse J r = Some (ts, p)"
    using preprocessModelResponse_total by blast
  then have "ts = [TierB] \<or> ts = [TierB, TierC]" by (rule preprocessModelResponse_tiers)
  moreover have "openaiContents J r = Some (ts, parseProcessed J p)"
    using p by (simp add: openaiContents_def)
  ultimately show "\<exists>ts p. preprocessModelResponse J r = Some (ts, p)
         \<and> openaiContents J r = Some (ts, parseProcessed J p)
         \<and> (ts = [TierB] \<or> ts = [TierB, TierC])"
    using p by blast
qed

theorem tier_short_circuit_witness:
  "geminiContents mixedJSON Some mixedResponse = Some ([TierA], [animeRecord])"
  using tier_short_circuit [THEN conjunct1, of Some mixedResponse mixedJSON]
  by (simp add: mixed_tierA)

text \<open>
  Claim C6 as stated fails for a response of the OpenAI provider: on \<open>mixedResponse\<close>,
  an array of one entry of category \<open>Anime\<close> and one of category \<open>Korean\<close>, Tier A
  yields one valid record, and yet the OpenAI pipeline runs Tier B and returns what the
  JSON library decodes from the array, the two records, not the one of Tier A.
\<close>

theorem openai_skips_tier_a_counterexample:
  "extractContentManually Some mixedResponse = [animeRecord]
   \<and> openaiContents mixedJSON mixedResponse = Some ([TierB], [animeRecord, koreanRecord])"
  unfolding mixedResponse_def mixedJSON_def animeRecord_def koreanRecord_def by code_simp

text \<open>
  Claim C9. For every response, every JSON library and every \<open>ParseFloat\<close>, both
  pipelines return (no slice expression is out of bounds) with a list of records. When
  no fragment of Tier C parses, \<open>reformatJSON\<close> returns the text \<open>[]\<close>, whatever its
  input; and when the processed text is \<open>[]\<close>, which the JSON library decodes to the
  empty list, the pipeline yields the empty list of records.
\<close>

theorem pipeline_never_raises:
  "(\<exists>t cs. geminiContents J pf r = Some (t, cs))
   \<and> (\<exists>t cs. openaiContents J r = Some (t, cs))
   \<and> (list_all (\<lambda>p. UnmarshalObject J p = None)
         (fragments (take (length input - 2) (drop 1 input))) \<longrightarrow>
        reformatJSON J input = Some ''[]'')
   \<and> (UnmarshalContents J ''[]'' = Some [] \<and> preprocessModelResponse J r = Some (ts, ''[]'') \<longrightarrow>
        openaiContents J r = Some (ts, [])
        \<and> (extractContentManually pf r = [] \<longrightarrow> geminiContents J pf r = Some (TierA # ts, [])))"
proof (intro conjI impI)
  show "\<exists>t cs. geminiContents J pf r = Some (t, cs)" by (rule geminiContents_total)
  show "\<exists>t cs. openaiContents J r = Some (t, cs)" by (rule openaiContents_total)
next
  assume "list_all (\<lambda>p. UnmarshalObject J p = None)
            (fragments (take (length input - 2) (drop 1 input)))"
  then show "reformatJSON J input = Some ''[]''" by (rule reformatJSON_none_survive)
next
  assume a: "UnmarshalContents J ''[]'' = Some [] \<and> preprocessModelResponse J r = Some (ts, ''[]'')"
  then show "openaiContents J r = Some (ts, [])"
    by (simp add: openaiContents_def parseProcessed_def)
next
  assume a: "UnmarshalContents J ''[]'' = Some [] \<and> preprocessModelResponse J r = Some (ts, ''[]'')"
    and b: "extractContentManually pf r = []"
  then show "geminiContents J pf r = Some (TierA # ts, [])"
    by (simp add: geminiContents_def parseProcessed_def)
qed

theorem pipeline_never_raises_witness:
  "openaiContents (exampleJSON [(''[]'', [])] :: (string, unit) json) notJSON = Some ([TierB], [])
   \<and> geminiContents (exampleJSON [(''[]'', [])] :: (string, unit) json) Some notJSON
       = Some ([TierA, TierB], [])
   \<and> reformatJSON (exampleJSON [(''[]'', [])] :: (string, unit) json) brokenArray = Some ''[]''"
proof -
  let ?J = "exampleJSON [(''[]'', [])] :: (string, unit) json"
  have u: "UnmarshalContents ?J ''[]'' = Some []" by (simp add: exampleJSON_def)
  have f: "list_all (\<lambda>p. UnmarshalObject ?J p = None)
             (fragments (take (length brokenArray - 2) (drop 1 brokenArray)))"
    by (simp add: exampleJSON_def list_all_iff)
  have a: "extractContentManually Some notJSON = []"
    unfolding notJSON_def by code_simp
  show ?thesis
    using pipeline_never_raises [of ?J Some notJSON brokenArray "[TierB]"] u f a notJSON_tierB
    by simp
qed

text \<open>
  Claim C5, as amended. After the fence markers are removed: (1) when the text has a
  first \<open>[\<close> and its last \<open>]\<close> comes after it, the slice between the two, both
  included, goes through the six repairs in the order of the source and is parsed; when
  that fails it goes through the second pass and is parsed once more, and when that
  fails too, Tier C takes the text of the second pass. (2) When the text has a \<open>[\<close> but
  no \<open>]\<close> after the first one, the result is \<open>[]\<close>, also when the text holds an
  object. (3) When the text has no \<open>[\<close> and the last \<open>}\<close> comes after the first \<open>{\<close>,
  the slice between the two is put between brackets and returned as it is, without
  repairs and unparsed. (4) When it has no \<open>[\<close> and no such pair of braces, the result
  is \<open>[]\<close>.
\<close>

theorem tier_b_structure:
  "(stripFences r = pre @ ''['' @ mid @ '']'' @ post \<and> CHR ''['' \<notin> set pre \<and> CHR '']'' \<notin> set post \<longrightarrow>
      preprocessModelResponse J r =
        (let s = removeTrailingCommas (stripControl (unescapeQuotes (quoteBareValues
                   (fixColonSpacing (removeBackticks (''['' @ mid @ '']''))))))
         in if UnmarshalArray J s then Some ([TierB], s)
            else if UnmarshalArray J (fixQuotes s) then Some ([TierB], fixQuotes s)
            else map_option (Pair [TierB, TierC]) (reformatJSON J (fixQuotes s))))
   \<and> (stripFences r = pre @ ''['' @ rest \<and> CHR ''['' \<notin> set pre \<and> CHR '']'' \<notin> set rest \<longrightarrow>
        preprocessModelResponse J r = Some ([TierB], ''[]''))
   \<and> (stripFences r = pre @ ''{'' @ mid @ ''}'' @ post \<and> CHR ''['' \<notin> set (stripFences r)
        \<and> CHR ''{'' \<notin> set pre \<and> CHR ''}'' \<notin> set post \<longrightarrow>
        preprocessModelResponse J r = Some ([TierB], ''['' @ ''{'' @ mid @ ''}'' @ '']''))
   \<and> (CHR ''['' \<notin> set (stripFences r)
        \<and> (CHR ''{'' \<notin> set (stripFences r)
            \<or> (stripFences r = pre @ ''{'' @ rest \<and> CHR ''{'' \<notin> set pre \<and> CHR ''}'' \<notin> set rest)) \<longrightarrow>
        preprocessModelResponse J r = Some ([TierB], ''[]''))"
proof (intro conjI impI)
  assume "stripFences r = pre @ ''['' @ mid @ '']'' @ post \<and> CHR ''['' \<notin> set pre \<and> CHR '']'' \<notin> set post"
  then have "preprocessModelResponse J r = repairAndCheck J (''['' @ mid @ '']'')"
    using preprocess_brackets by blast
  then show "preprocessModelResponse J r =
        (let s = removeTrailingCommas (stripControl (unescapeQuotes (quoteBareValues
                   (fixColonSpacing (removeBackticks (''['' @ mid @ '']''))))))
         in if UnmarshalArray J s then Some ([TierB], s)
            else if UnmarshalArray J (fixQuotes s) then Some ([TierB], fixQuotes s)
            else map_option (Pair [TierB, TierC]) (reformatJSON J (fixQuotes s)))"
    by (simp only: repairAndCheck_unfold)
next
  assume "stripFences r = pre @ ''['' @ rest \<and> CHR ''['' \<notin> set pre \<and> CHR '']'' \<notin> set rest"
  then show "preprocessModelResponse J r = Some ([TierB], ''[]'')"
    using preprocess_unclosed by blast
next
  assume "stripFences r = pre @ ''{'' @ mid @ ''}'' @ post \<and> CHR ''['' \<notin> set (stripFences r)
        \<and> CHR ''{'' \<notin> set pre \<and> CHR ''}'' \<notin> set post"
  then show "preprocessModelResponse J r = Some ([TierB], ''['' @ ''{'' @ mid @ ''}'' @ '']'')"
    using preprocess_object by blast
next
  assume "CHR ''['' \<notin> set (stripFences r)
        \<and> (CHR ''{'' \<notin> set (stripFences r)
            \<or> (stripFences r = pre @ ''{'' @ rest \<and> CHR ''{'' \<notin> set pre \<and> CHR ''}'' \<notin> set rest))"
  then show "preprocessModelResponse J r = Some ([TierB], ''[]'')"
    using preprocess_nothing by blast
qed

theorem tier_b_structure_witness:
  "preprocessModelResponse foreignJSON fencedResponse = Some ([TierB], foreignText)
   \<and> preprocessModelResponse foreignJSON unclosedResponse = Some ([TierB], ''[]'')
   \<and> preprocessModelResponse foreignJSON objectResponse = Some ([TierB], ''['' @ objectResponse @ '']'')
   \<and> preprocessModelResponse foreignJSON plainText = Some ([TierB], ''[]'')"
proof -
  have u: "UnmarshalArray foreignJSON foreignText"
    by (simp add: foreignJSON_def exampleJSON_def)
  have a: "CHR ''['' \<notin> set [CHR 0x0A]" "CHR '']'' \<notin> set [CHR 0x0A]" by simp_all
  have b: "stripFences unclosedResponse = [] @ ''['' @ tl unclosedResponse"
    "CHR ''['' \<notin> set []" "CHR '']'' \<notin> set (tl unclosedResponse)"
    unfolding unclosedResponse_def by code_simp+
  have c: "stripFences objectResponse
             = [] @ ''{'' @ take (length objectResponse - 2) (tl objectResponse) @ ''}'' @ []"
    "''{'' @ take (length objectResponse - 2) (tl objectResponse) @ ''}'' = objectResponse"
    "CHR ''['' \<notin> set (stripFences objectResponse)" "CHR ''{'' \<notin> set []" "CHR ''}'' \<notin> set []"
    unfolding objectResponse_def by code_simp+
  have d: "CHR ''['' \<notin> set (stripFences plainText)" "CHR ''{'' \<notin> set (stripFences plainText)"
    unfolding plainText_def by code_simp+
  have 1: "preprocessModelResponse foreignJSON fencedResponse = Some ([TierB], foreignText)"
    using tier_b_structure [where r = fencedResponse and J = foreignJSON and pre = "[CHR 0x0A]"
        and mid = "take (length foreignText - 3) (drop 1 foreignText) @ '',}''" and post = "[CHR 0x0A]"]
      fenced_split fenced_repaired u a
    by (simp add: Let_def)
  have 2: "preprocessModelResponse foreignJSON unclosedResponse = Some ([TierB], ''[]'')"
    using tier_b_structure [where r = unclosedResponse and J = foreignJSON and pre = "[]"
        and rest = "tl unclosedResponse"] b
    by simp
  from tier_b_structure [where r = objectResponse and J = foreignJSON and pre = "[]"
        and mid = "take (length objectResponse - 2) (tl objectResponse)" and post = "[]",
        THEN conjunct2, THEN conjunct2, THEN conjunct1] c(1,3,4,5)
  have "preprocessModelResponse foreignJSON objectResponse
          = Some ([TierB], ''['' @ (''{'' @ take (length objectResponse - 2) (tl objectResponse) @ ''}'') @ '']'')"
    by simp
  then have 3: "preprocessModelResponse foreignJSON objectResponse
             = Some ([TierB], ''['' @ objectResponse @ '']'')"
    by (simp only: c(2))
  have 4: "preprocessModelResponse foreignJSON plainText = Some ([TierB], ''[]'')"
    using tier_b_structure [where r = plainText and J = foreignJSON] d
    by simp
  from 1 2 3 4 show ?thesis by simp
qed

text \<open>
  Claim C5 as stated fails: a response whose array is never closed has no pair of
  brackets and holds one object, which the claim wants wrapped as an array of one
  element; the source returns the empty array. Neither side consults the JSON library
  on this response.
\<close>

theorem tier_b_unclosed_array_counterexample:
  "preprocessModelResponse emptyJSON unclosedResponse = Some ([TierB], ''[]'')
   \<and> preprocessModelResponse_spec emptyJSON unclosedResponse
       = Some ([TierB], unclosedResponse @ '']'')
   \<and> preprocessModelResponse emptyJSON unclosedResponse
       \<noteq> preprocessModelResponse_spec emptyJSON unclosedResponse"
  unfolding unclosedResponse_def emptyJSON_def by code_simp

text \<open>
  Claim C1, evaluated where the source breaks it. The response \<open>koreanResponse\<close> holds one
  entry, of category \<open>Korean\<close>. Tier A skips it and so finds nothing; Tier B then hands
  the text over unchanged, and with a JSON library that decodes this array to its one
  record, the record of category \<open>Korean\<close> is the result of the pipeline, for the Gemini
  provider as for the OpenAI provider: nothing after Tier A looks at the category. In a
  run whose provider answers with this response, the record is saved.
\<close>

theorem korean_record_survives_fallback:
  "UnmarshalArray (J :: ('f, 'o) json) koreanResponse \<and> UnmarshalContents J koreanResponse = Some [koreanRecord] \<longrightarrow>
     extractContentManually pf koreanResponse = []
     \<and> geminiContents J pf koreanResponse = Some ([TierA, TierB], [koreanRecord])
     \<and> openaiContents J koreanResponse = Some ([TierB], [koreanRecord])
     \<and> Category (koreanRecord :: 'f Content) = ''Korean''"
proof (intro impI)
  assume a: "UnmarshalArray J koreanResponse \<and> UnmarshalContents J koreanResponse = Some [koreanRecord]"
  then have p: "preprocessModelResponse J koreanResponse = Some ([TierB], koreanResponse)"
    using korean_tierB by blast
  show "extractContentManually pf koreanResponse = []
     \<and> geminiContents J pf koreanResponse = Some ([TierA, TierB], [koreanRecord])
     \<and> openaiContents J koreanResponse = Some ([TierB], [koreanRecord])
     \<and> Category (koreanRecord :: 'f Content) = ''Korean''"
    using a p korean_tierA [of pf]
    by (simp add: geminiContents_def openaiContents_def parseProcessed_def koreanRecord_def)
qed

theorem korean_record_survives_fallback_witness:
  "geminiContents koreanJSON Some koreanResponse = Some ([TierA, TierB], [koreanRecord])
   \<and> Category (koreanRecord :: string Content) = ''Korean''
   \<and> map_option (map category \<circ> table \<circ> snd)
        (Run (exampleWorld koreanResponse noDeadline) koreanJSON Some exampleJob [] NewModelManager)
       = Some [''Korean'']"
proof -
  have "UnmarshalArray koreanJSON koreanResponse
        \<and> UnmarshalContents koreanJSON koreanResponse = Some [koreanRecord]"
    by (simp add: koreanJSON_def exampleJSON_def)
  then show ?thesis
    using korean_record_survives_fallback [of koreanJSON Some] korean_saved by simp
qed

section \<open>Providers\<close>






section \<open>Storage\<close>

lemma hasKey_Year: "hasKey (c\<lparr>Year := y\<rparr>) = hasKey c"
  by (rule ext) (simp add: hasKey_def)

text \<open>
  Claim C7. On a healthy database: when no row has the key \<open>(title, type)\<close> of the
  record, \<open>SaveContent\<close> appends a row with all fields of the record, the source URL
  included, and with \<open>scraped_at\<close>, \<open>created_at\<close> and \<open>updated_at\<close> all set to the current
  time. When a row has the key, the table keeps its length, every row with the key
  keeps \<open>title\<close>, \<open>type\<close>, \<open>created_at\<close> and \<open>scraped_at\<close> and takes \<open>year\<close>,
  \<open>category\<close>, \<open>extra_info\<close>, \<open>rating\<close> and \<open>source_url\<close> from the record and the current
  time as \<open>updated_at\<close>, and every other row stays as it is. So saving a new key at
  time \<open>t1\<close> with year \<open>y1\<close> and again at time \<open>t2\<close> with year \<open>y2\<close> leaves one new
  row, created and scraped at \<open>t1\<close>, updated at \<open>t2\<close>, with year \<open>y2\<close>.
\<close>

theorem upsert_by_natural_key:
  "(\<not> list_ex (hasKey c) rows \<longrightarrow>
      SaveContent None now rows c =
        Inr (rows @ [\<lparr>title = Title c, year = Year c, category = Category c,
                      extra_info = ExtraInfo c, type = Type c, rating = Rating c,
                      source_url = SourceURL c, scraped_at = now, created_at = now,
                      updated_at = now\<rparr>]))
   \<and> (list_ex (hasKey c) rows \<longrightarrow>
        (\<exists>rows'. SaveContent None now rows c = Inr rows' \<and> length rows' = length rows
           \<and> (\<forall>i < length rows.
                 (hasKey c (rows ! i) \<longrightarrow>
                    title (rows' ! i) = title (rows ! i) \<and> type (rows' ! i) = type (rows ! i)
                    \<and> created_at (rows' ! i) = created_at (rows ! i)
                    \<and> scraped_at (rows' ! i) = scraped_at (rows ! i)
                    \<and> year (rows' ! i) = Year c \<and> category (rows' ! i) = Category c
                    \<and> extra_info (rows' ! i) = ExtraInfo c \<and> rating (rows' ! i) = Rating c
                    \<and> source_url (rows' ! i) = SourceURL c \<and> updated_at (rows' ! i) = now)
                 \<and> (\<not> hasKey c (rows ! i) \<longrightarrow> rows' ! i = rows ! i))))
   \<and> (\<not> list_ex (hasKey c) rows \<longrightarrow>
        (\<exists>rows1. SaveContent None t1 rows (c\<lparr>Year := y1\<rparr>) = Inr rows1
           \<and> SaveContent None t2 rows1 (c\<lparr>Year := y2\<rparr>) =
               Inr (rows @ [\<lparr>title = Title c, year = y2, category = Category c,
                             extra_info = ExtraInfo c, type = Type c, rating = Rating c,
                             source_url = SourceURL c, scraped_at = t1, created_at = t1,
                             updated_at = t2\<rparr>])))"
proof (intro conjI impI)
  assume "\<not> list_ex (hasKey c) rows"
  then show "SaveContent None now rows c =
        Inr (rows @ [\<lparr>title = Title c, year = Year c, category = Category c,
                      extra_info = ExtraInfo c, type = Type c, rating = Rating c,
                      source_url = SourceURL c, scraped_at = now, created_at = now,
                      updated_at = now\<rparr>])"
    by (simp add: SaveContent_def insertRow_def)
next
  assume "list_ex (hasKey c) rows"
  then show "\<exists>rows'. SaveContent None now rows c = Inr rows' \<and> length rows' = length rows
           \<and> (\<forall>i < length rows.
                 (hasKey c (rows ! i) \<longrightarrow>
                    title (rows' ! i) = title (rows ! i) \<and> type (rows' ! i) = type (rows ! i)
                    \<and> created_at (rows' ! i) = created_at (rows ! i)
                    \<and> scraped_at (rows' ! i) = scraped_at (rows ! i)
                    \<and> year (rows' ! i) = Year c \<and> category (rows' ! i) = Category c
                    \<and> extra_info (rows' ! i) = ExtraInfo c \<and> rating (rows' ! i) = Rating c
                    \<and> source_url (rows' ! i) = SourceURL c \<and> updated_at (rows' ! i) = now)
                 \<and> (\<not> hasKey c (rows ! i) \<longrightarrow> rows' ! i = rows ! i))"
    by (simp add: SaveContent_def updateRow_def)
next
  assume n: "\<not> list_ex (hasKey c) rows"
  have no: "\<forall>r \<in> set rows. \<not> hasKey c r" using n by (simp add: list_ex_iff)
  have m: "map (\<lambda>r. if hasKey c r then updateRow t2 (c\<lparr>Year := y2\<rparr>) r else r) rows = rows"
    using no by (induction rows) auto
  have "SaveContent None t1 rows (c\<lparr>Year := y1\<rparr>) = Inr (rows @ [insertRow t1 (c\<lparr>Year := y1\<rparr>)])"
    using n by (simp add: SaveContent_def hasKey_Year)
  moreover have "hasKey c (insertRow t1 (c\<lparr>Year := y1\<rparr>))"
    by (simp add: hasKey_def insertRow_def)
  ultimately show "\<exists>rows1. SaveContent None t1 rows (c\<lparr>Year := y1\<rparr>) = Inr rows1
           \<and> SaveContent None t2 rows1 (c\<lparr>Year := y2\<rparr>) =
               Inr (rows @ [\<lparr>title = Title c, year = y2, category = Category c,
                             extra_info = ExtraInfo c, type = Type c, rating = Rating c,
                             source_url = SourceURL c, scraped_at = t1, created_at = t1,
                             updated_at = t2\<rparr>])"
    using m by (simp add: SaveContent_def hasKey_Year updateRow_def insertRow_def)
qed

theorem upsert_by_natural_key_witness:
  "SaveContent None 20 [insertRow 10 (animeRecord\<lparr>Year := Some 2020\<rparr> :: string Content)]
     (animeRecord\<lparr>Year := Some 2021\<rparr>) =
   Inr [\<lparr>title = ''Z'', year = Some 2021, category = ''Anime'', extra_info = '''',
         type = ''movie'', rating = None, source_url = None, scraped_at = 10,
         created_at = 10, updated_at = 20\<rparr>]"
  using upsert_by_natural_key [of "animeRecord :: string Content" "[]" 10 10 "Some 2020" 20 "Some 2021"]
  by (simp add: animeRecord_def SaveContent_def insertRow_def)

section \<open>The run\<close>



text \<open>
  Claim C2, as amended. When the checkpoint of a source sees the cancellation, after the
  sources before it were processed and left the state \<open>st\<close>, the run returns the error
  of the context in exactly that state: the source and those after it are not touched,
  the table is as the earlier sources left it, with every key \<open>(title, type)\<close> it had
  at the start of the run still in it, and the run has emitted neither the summary line
  nor a notification.
\<close>

theorem cancellation_stops_run:
  "effectiveSources job = pre @ url # post
   \<and> sourceLoop W J pf 0 pre (initialState rows m) = Some (None, st)
   \<and> ctxDone W (length pre) = Some err \<longrightarrow>
     Run W J pf job rows m = Some (Some err, st)
     \<and> list_all (\<lambda>e. \<not> isFinalEvent e) (events st)
     \<and> (list_ex (\<lambda>r. title r = t \<and> type r = ty) rows \<longrightarrow>
          list_ex (\<lambda>r. title r = t \<and> type r = ty) (table st))"
proof (intro impI)
  assume a: "effectiveSources job = pre @ url # post
   \<and> sourceLoop W J pf 0 pre (initialState rows m) = Some (None, st)
   \<and> ctxDone W (length pre) = Some err"
  then have "sourceLoop W J pf 0 (effectiveSources job) (initialState rows m) = Some (Some err, st)"
    by (simp add: sourceLoop_append)
  then have r: "Run W J pf job rows m = Some (Some err, st)" by (simp add: Run_def)
  have "list_all (\<lambda>e. \<not> isFinalEvent e) (events (initialState rows m))"
    by (simp add: initialState_def)
  with a have e: "list_all (\<lambda>e. \<not> isFinalEvent e) (events st)"
    using sourceLoop_events by blast
  have k: "list_ex (\<lambda>r. title r = t \<and> type r = ty) rows \<longrightarrow>
          list_ex (\<lambda>r. title r = t \<and> type r = ty) (table st)"
  proof
    assume "list_ex (\<lambda>r. title r = t \<and> type r = ty) rows"
    then have "list_ex (\<lambda>r. title r = t \<and> type r = ty) (table (initialState rows m))"
      by (simp add: initialState_def)
    with a show "list_ex (\<lambda>r. title r = t \<and> type r = ty) (table st)"
      using sourceLoop_keeps_keys by blast
  qed
  from r e k show "Run W J pf job rows m = Some (Some err, st)
     \<and> list_all (\<lambda>e. \<not> isFinalEvent e) (events st)
     \<and> (list_ex (\<lambda>r. title r = t \<and> type r = ty) rows \<longrightarrow>
          list_ex (\<lambda>r. title r = t \<and> type r = ty) (table st))" by simp
qed

theorem cancellation_stops_run_witness:
  "map_option fst (Run (exampleWorld animeResponse (deadlineAt 1)) emptyJSON Some exampleJob []
      NewModelManager) = Some (Some DeadlineExceeded)
   \<and> map_option (table \<circ> snd)
        (Run (exampleWorld animeResponse (deadlineAt 1)) emptyJSON Some exampleJob []
           NewModelManager)
       = map_option (table \<circ> snd)
           (sourceLoop (exampleWorld animeResponse (deadlineAt 1)) emptyJSON Some 0 [''a'']
              (initialState [] NewModelManager))"
proof -
  let ?W = "exampleWorld animeResponse (deadlineAt 1)"
  have "\<forall>k < length [''a'']. ctxDone ?W (0 + k) = None"
    by (simp add: exampleWorld_def deadlineAt_def)
  from sourceLoop_completes [OF this]
  obtain st where l: "sourceLoop ?W emptyJSON Some 0 [''a''] (initialState [] NewModelManager)
                        = Some (None, st :: string run_state)"
    by blast
  have e: "effectiveSources exampleJob = [''a''] @ ''b'' # []"
    by (simp add: effectiveSources_def exampleJob_def)
  have d: "ctxDone ?W (length [''a'']) = Some DeadlineExceeded"
    by (simp add: exampleWorld_def deadlineAt_def)
  show ?thesis
    using cancellation_stops_run [where job = exampleJob and pre = "[''a'']" and url = "''b''"
        and post = "[]" and W = ?W and J = emptyJSON and pf = Some and rows = "[]"
        and m = NewModelManager and st = st and err = DeadlineExceeded] l e d
    by simp
qed

text \<open>
  Claim C2 as stated fails: in a run over two sources where the first source yields a
  saved record and the deadline has passed at the checkpoint of the second, the run
  returns the deadline error with a non-empty collection of saved records, and has
  emitted nothing: no aggregate count, no notification. (Tier A finds the record, so
  the JSON library is not consulted.)
\<close>

theorem cancelled_run_skips_finalization_counterexample:
  "map_option fst (Run (exampleWorld animeResponse (deadlineAt 1)) emptyJSON Some exampleJob []
      NewModelManager) = Some (Some DeadlineExceeded)
   \<and> map_option (allScrapedContent \<circ> snd)
         (Run (exampleWorld animeResponse (deadlineAt 1)) emptyJSON Some exampleJob []
            NewModelManager) = Some [animeRecord\<lparr>SourceURL := Some ''a''\<rparr>]
   \<and> map_option (events \<circ> snd)
         (Run (exampleWorld animeResponse (deadlineAt 1)) emptyJSON Some exampleJob []
            NewModelManager) = Some []"
  unfolding animeResponse_def animeRecord_def emptyJSON_def by code_simp

section \<open>The scheduler\<close>

text \<open>
  Claim C10. For every scheduler state, every job and every behaviour of the cron
  parser, \<open>AddMorningEveningJob\<close> returns an error. When the first \<open>AddJob\<close> succeeds it
  has registered the name of the job, so the second call, for the 17:00 schedule, is the
  one that fails, with "already registered", and the scheduler is left as the first call
  made it. The call adds no entry for the 17:00 schedule: the registered entries hold
  one for the job only if they held it before.
\<close>

theorem AddMorningEveningJob_always_fails:
  "fst (AddMorningEveningJob accepts s job) \<noteq> None
   \<and> (fst (AddJob accepts s ''0 0 10 * * *'' job) = None \<longrightarrow>
        fst (AddMorningEveningJob accepts s job) = Some (AlreadyRegistered (Name job))
        \<and> snd (AddMorningEveningJob accepts s job) = snd (AddJob accepts s ''0 0 10 * * *'' job))
   \<and> ((''0 0 17 * * *'', Name job) \<in> set (cron (snd (AddMorningEveningJob accepts s job)))
        \<longrightarrow> (''0 0 17 * * *'', Name job) \<in> set (cron s))"
  by (auto simp: AddMorningEveningJob_def AddJob_def Let_def split: if_splits prod.splits option.splits)

theorem AddMorningEveningJob_always_fails_witness:
  "fst (AddJob (\<lambda>spec. True) NewScheduler ''0 0 10 * * *'' \<lparr>Name = ''content_scraper''\<rparr>) = None
   \<and> fst (AddMorningEveningJob (\<lambda>spec. True) NewScheduler \<lparr>Name = ''content_scraper''\<rparr>)
       = Some (AlreadyRegistered ''content_scraper'')
   \<and> (''0 0 17 * * *'', ''content_scraper'')
       \<notin> set (cron (snd (AddMorningEveningJob (\<lambda>spec. True) NewScheduler \<lparr>Name = ''content_scraper''\<rparr>)))"
  using AddMorningEveningJob_always_fails [of "\<lambda>spec. True" NewScheduler "\<lparr>Name = ''content_scraper''\<rparr>"]
  by (simp add: AddJob_def AddMorningEveningJob_def NewScheduler_def Let_def)

end
